theory Spec2Isabelle
  imports Complex_Main "HOL-Library.Sublist"
begin

section \<open>Python values\<close>

text \<open>
  The function of \<^verbatim>\<open>main.py\<close> handles decoded JSON throughout: the request body, the
  job-definition parameters, the REST payload and the REST answer. A JSON value is a
  Python \<^verbatim>\<open>None\<close>, \<^verbatim>\<open>bool\<close>, \<^verbatim>\<open>int\<close>, \<^verbatim>\<open>float\<close>, \<^verbatim>\<open>str\<close>, \<^verbatim>\<open>list\<close> or \<^verbatim>\<open>dict\<close> with string keys.
  A dict is an association list in insertion order whose keys are distinct; looking a key
  up is \<open>map_of\<close>. A float is a rational (every finite double is one), an infinity with
  its sign, or not-a-number.
\<close>

datatype pyfloat = Finite rat | Infinite bool | NaN

datatype json =
    JNull
  | JBool bool
  | JInt int
  | JFloat pyfloat
  | JStr string
  | JArr "json list"
  | JObj "(string \<times> json) list"

text \<open>Truth value testing, as \<^verbatim>\<open>if x:\<close> does it.\<close>

fun py_truthy :: "json \<Rightarrow> bool" where
  "py_truthy JNull = False"
| "py_truthy (JBool b) = b"
| "py_truthy (JInt i) = (i \<noteq> 0)"
| "py_truthy (JFloat f) = (f \<noteq> Finite 0)"
| "py_truthy (JStr s) = (s \<noteq> [])"
| "py_truthy (JArr xs) = (xs \<noteq> [])"
| "py_truthy (JObj kvs) = (kvs \<noteq> [])"

text \<open>\<^verbatim>\<open>type(v).__name__\<close>, which the interpreter writes into an AttributeError.\<close>

fun type_name :: "json \<Rightarrow> string" where
  "type_name JNull = ''NoneType''"
| "type_name (JBool b) = ''bool''"
| "type_name (JInt i) = ''int''"
| "type_name (JFloat f) = ''float''"
| "type_name (JStr s) = ''str''"
| "type_name (JArr xs) = ''list''"
| "type_name (JObj kvs) = ''dict''"

subsection \<open>Strings\<close>

text \<open>Decimal rendering of an int, as \<^verbatim>\<open>str\<close> and an f-string produce it.\<close>

definition digit_char :: "nat \<Rightarrow> char" where
  "digit_char n = char_of (48 + n)"

fun digits :: "nat \<Rightarrow> string" where
  "digits n = (if n < 10 then [digit_char n] else digits (n div 10) @ [digit_char (n mod 10)])"

declare digits.simps [simp del]

definition str_int :: "int \<Rightarrow> string" where
  "str_int i = (if i < 0 then CHR ''-'' # digits (nat (- i)) else digits (nat i))"

definition is_digit :: "char \<Rightarrow> bool" where
  "is_digit c = (c \<in> set ''0123456789'')"

text \<open>
  \<^verbatim>\<open>repr\<close> of a str over ASCII: the string is quoted with single quotes, or with double
  quotes when it holds a single quote and no double quote; the quote and the backslash
  are escaped, tab, newline and carriage return are written \<^verbatim>\<open>\t \n \r\<close>, every other
  control character \<^verbatim>\<open>\xNN\<close>. Characters from 128 on stand for the UTF-8 bytes of
  printable code points and are kept.
\<close>

definition sq :: char where
  "sq = CHR 0x27"

definition dq :: char where
  "dq = CHR 0x22"

definition backslash :: char where
  "backslash = CHR 0x5C"

definition hex_digit :: "nat \<Rightarrow> char" where
  "hex_digit n = ''0123456789abcdef'' ! n"

definition repr_char :: "char \<Rightarrow> char \<Rightarrow> string" where
  "repr_char quote c =
     (if c = quote \<or> c = backslash then [backslash, c]
      else if c = CHR 0x09 then [backslash, CHR ''t'']
      else if c = CHR 0x0A then [backslash, CHR ''n'']
      else if c = CHR 0x0D then [backslash, CHR ''r'']
      else if (of_char c :: nat) < 32 \<or> (of_char c :: nat) = 127
        then [backslash, CHR ''x'', hex_digit (of_char c div 16), hex_digit (of_char c mod 16)]
      else [c])"

definition py_repr_str :: "string \<Rightarrow> string" where
  "py_repr_str s =
     (let quote = (if sq \<in> set s \<and> dq \<notin> set s then dq else sq)
      in quote # concat (map (repr_char quote) s) @ [quote])"

text \<open>\<^verbatim>\<open>s.replace(old, new)\<close>: every occurrence of \<open>old\<close>, leftmost first, not overlapping.\<close>

function str_replace :: "string \<Rightarrow> string \<Rightarrow> string \<Rightarrow> string" where
  "str_replace old new s =
     (if old = [] then new @ concat (map (\<lambda>c. c # new) s)
      else if s = [] then []
      else if prefix old s then new @ str_replace old new (drop (length old) s)
      else hd s # str_replace old new (tl s))"
  by pat_completeness auto
termination
  by (relation "measure (\<lambda>(old, new, s). length s)") auto

declare str_replace.simps [simp del]

text \<open>\<^verbatim>\<open>s.split(sep)\<close> for a separator of one character: never the empty list.\<close>

fun str_split :: "char \<Rightarrow> string \<Rightarrow> string list" where
  "str_split sep [] = [[]]"
| "str_split sep (c # cs) =
     (if c = sep then [] # str_split sep cs
      else (case str_split sep cs of [] \<Rightarrow> [[c]] | p # ps \<Rightarrow> (c # p) # ps))"

text \<open>\<^verbatim>\<open>sep.join(parts)\<close>.\<close>

fun str_join :: "string \<Rightarrow> string list \<Rightarrow> string" where
  "str_join sep [] = []"
| "str_join sep [p] = p"
| "str_join sep (p # q # ps) = p @ sep @ str_join sep (q # ps)"

text \<open>
  \<^verbatim>\<open>round(x)\<close> of a float with no second argument: the nearest int, a tie going to the
  even one.
\<close>

definition py_round :: "rat \<Rightarrow> int" where
  "py_round x =
     (let f = \<lfloor>x\<rfloor>; d = x - of_int f
      in if d < 1 / 2 then f else if 1 / 2 < d then f + 1 else if even f then f else f + 1)"

subsection \<open>Exceptions\<close>

text \<open>
  A raised object is an instance of \<^verbatim>\<open>Exception\<close>: its class name
  (\<^verbatim>\<open>error.__class__.__name__\<close>), the qualified names of the classes below
  \<^verbatim>\<open>Exception\<close> it is an instance of, and its \<^verbatim>\<open>repr\<close>. Interrupts of the process
  (\<^verbatim>\<open>KeyboardInterrupt\<close>, \<^verbatim>\<open>SystemExit\<close>) are not values of this type.
\<close>

datatype exn = Exn (class_name: string) (instance_of: "string list") (repr_exn: string)

definition isinstance :: "exn \<Rightarrow> string list \<Rightarrow> bool" where
  "isinstance e classes = (set (instance_of e) \<inter> set classes \<noteq> {})"

text \<open>What the interpreter raises for \<^verbatim>\<open>v.attr\<close> when the type of \<open>v\<close> has no such attribute.\<close>

definition attribute_error :: "json \<Rightarrow> string \<Rightarrow> exn" where
  "attribute_error v attr =
     Exn ''AttributeError'' [''builtins.AttributeError'']
       (''AttributeError('' @
          py_repr_str ([sq] @ type_name v @ [sq] @ '' object has no attribute '' @ [sq] @ attr @ [sq])
        @ '')'')"

text \<open>\<^verbatim>\<open>Exception(msg)\<close>.\<close>

definition py_exception :: "string \<Rightarrow> exn" where
  "py_exception msg = Exn ''Exception'' [] (''Exception('' @ py_repr_str msg @ '')'')"

text \<open>\<^verbatim>\<open>parts[0]\<close> of an empty list.\<close>

definition index_error :: exn where
  "index_error = Exn ''IndexError'' [''builtins.LookupError'', ''builtins.IndexError'']
     (''IndexError('' @ [sq] @ ''list index out of range'' @ [sq] @ '')'')"

text \<open>\<^verbatim>\<open>v.get(key, default)\<close>: only a dict has the method.\<close>

definition py_get :: "json \<Rightarrow> string \<Rightarrow> json \<Rightarrow> exn + json" where
  "py_get v key dflt =
     (case v of
        JObj kvs \<Rightarrow> Inr (case map_of kvs key of None \<Rightarrow> dflt | Some x \<Rightarrow> x)
      | _ \<Rightarrow> Inl (attribute_error v ''get''))"

text \<open>\<^verbatim>\<open>v.startswith(p)\<close>: only a str has the method.\<close>

definition py_startswith :: "json \<Rightarrow> string \<Rightarrow> exn + bool" where
  "py_startswith v p =
     (case v of
        JStr s \<Rightarrow> Inr (prefix p s)
      | _ \<Rightarrow> Inl (attribute_error v ''startswith''))"

section \<open>The world outside the function\<close>

text \<open>
  The answer of the remote REST API: \<^verbatim>\<open>response.status_code\<close>, \<^verbatim>\<open>response.text\<close> and
  what \<^verbatim>\<open>response.json()\<close> returns or raises.
\<close>

record response =
  status_code :: int
  resp_text :: string
  resp_json :: "exn + json"

text \<open>
  Everything the module reads from outside: the environment variable \<^verbatim>\<open>K_SERVICE\<close>
  (\<^verbatim>\<open>None\<close> when unset), the JSON parser of the web framework, the standard output as
  the \<^verbatim>\<open>print\<close> of line 46 meets it, the storage client
  (\<^verbatim>\<open>storage_client.bucket(b).blob(k)\<close> builds a handle and reads nothing, but may reject a
  name; \<^verbatim>\<open>download_as_bytes\<close> reads the object), \<^verbatim>\<open>bytes.decode\<close> and \<^verbatim>\<open>json.loads\<close>, the
  credentials (the token after \<^verbatim>\<open>refresh\<close>), the clock (\<^verbatim>\<open>datetime.now().timestamp()\<close>),
  the two HTTP verbs, and \<^verbatim>\<open>str\<close> of a float, list or dict. Each call either returns or
  raises.
\<close>

record env =
  function_name :: json
  request_loads :: "string \<Rightarrow> exn + json"
  print_event :: "string \<Rightarrow> exn + unit"
  make_blob :: "string \<Rightarrow> string \<Rightarrow> exn + unit"
  download_as_bytes :: "string \<Rightarrow> string \<Rightarrow> exn + string"
  bytes_decode :: "string \<Rightarrow> exn + string"
  json_loads :: "string \<Rightarrow> exn + json"
  refresh_token :: "exn + json"
  now_timestamp :: rat
  requests_post :: "string \<Rightarrow> json \<Rightarrow> (string \<times> string) list \<Rightarrow> exn + response"
  requests_get :: "string \<Rightarrow> (string \<times> string) list \<Rightarrow> exn + response"
  str_other :: "json \<Rightarrow> string"

text \<open>A replacement field \<^verbatim>\<open>{v}\<close> of an f-string.\<close>

definition py_str :: "env \<Rightarrow> json \<Rightarrow> string" where
  "py_str env v =
     (case v of
        JNull \<Rightarrow> ''None''
      | JBool b \<Rightarrow> (if b then ''True'' else ''False'')
      | JInt i \<Rightarrow> str_int i
      | JStr s \<Rightarrow> s
      | _ \<Rightarrow> str_other env v)"

text \<open>
  The calls that leave the process, in the order they are made. A computation returns
  the calls it made and either the exception it raised or its value.
\<close>

datatype effect =
    BlobDownload string string
  | TokenRefresh
  | HttpPost string json "(string \<times> string) list"
  | HttpGet string "(string \<times> string) list"

type_synonym 'a io = "effect list \<times> (exn + 'a)"

definition io_return :: "'a \<Rightarrow> 'a io" where
  "io_return a = ([], Inr a)"

definition io_raise :: "exn \<Rightarrow> 'a io" where
  "io_raise e = ([], Inl e)"

definition io_lift :: "exn + 'a \<Rightarrow> 'a io" where
  "io_lift r = ([], r)"

definition io_call :: "effect \<Rightarrow> exn + 'a \<Rightarrow> 'a io" where
  "io_call eff r = ([eff], r)"

definition io_bind :: "'a io \<Rightarrow> ('a \<Rightarrow> 'b io) \<Rightarrow> 'b io" where
  "io_bind m f =
     (case m of
        (t, Inl e) \<Rightarrow> (t, Inl e)
      | (t, Inr a) \<Rightarrow> (case f a of (t', r) \<Rightarrow> (t @ t', r)))"

text \<open>\<^verbatim>\<open>try: m except (classes) as e: handler\<close>.\<close>

definition io_except :: "'a io \<Rightarrow> (exn \<Rightarrow> bool) \<Rightarrow> (exn \<Rightarrow> 'a io) \<Rightarrow> 'a io" where
  "io_except m caught handler =
     (case m of
        (t, Inr a) \<Rightarrow> (t, Inr a)
      | (t, Inl e) \<Rightarrow>
          (if caught e then (case handler e of (t', r) \<Rightarrow> (t @ t', r)) else (t, Inl e)))"

section \<open>The functions of main.py\<close>

text \<open>
  \<^verbatim>\<open>extract_params\<close>. The handle of the blob is built before the \<^verbatim>\<open>try\<close> statement. The
  three classes of the \<^verbatim>\<open>except\<close> clause are caught and turned into \<^verbatim>\<open>None\<close>; any other
  exception leaves the function.
\<close>

definition extract_params :: "env \<Rightarrow> json \<Rightarrow> json \<Rightarrow> json \<Rightarrow> json io" where
  "extract_params env bucket_name job_name fn_name =
     (let json_file_path =
            ''gs://'' @ py_str env bucket_name @ ''/'' @ py_str env fn_name @ ''/''
              @ py_str env job_name @ ''.json'';
          parts = str_split (CHR ''/'') (str_replace ''gs://'' [] json_file_path)
      in case parts of
           [] \<Rightarrow> io_raise index_error
         | bucket # rest \<Rightarrow>
             (let object_name = str_join ''/'' rest
              in io_bind (io_lift (make_blob env bucket object_name)) (\<lambda>blob.
                 io_except
                   (io_bind (io_call (BlobDownload bucket object_name)
                               (download_as_bytes env bucket object_name)) (\<lambda>json_data.
                    io_bind (io_lift (bytes_decode env json_data)) (\<lambda>decoded.
                    io_bind (io_lift (json_loads env decoded)) (\<lambda>params.
                    io_return params))))
                   (\<lambda>e. isinstance e [''google.api_core.exceptions.NotFound'',
                                       ''json.decoder.JSONDecodeError'',
                                       ''builtins.UnicodeDecodeError''])
                   (\<lambda>e. io_return JNull))))"

text \<open>\<^verbatim>\<open>create_batch_job\<close>.\<close>

definition create_batch_job :: "env \<Rightarrow> json \<Rightarrow> json \<Rightarrow> json \<Rightarrow> json \<Rightarrow> json \<Rightarrow> json io" where
  "create_batch_job env workflow_name job_name query_variables workflow_properties extracted_params =
     io_bind (io_lift (py_get extracted_params ''dataproc_serverless_project_id'' JNull)) (\<lambda>dataproc_serverless_project_id.
     io_bind (io_lift (py_get extracted_params ''dataproc_serverless_region'' JNull)) (\<lambda>dataproc_serverless_region.
     io_bind (io_lift (py_get extracted_params ''jar_file_location'' JNull)) (\<lambda>jar_file_location.
     io_bind (io_lift (py_get extracted_params ''spark_history_server_cluster'' JNull)) (\<lambda>spark_history_server_cluster.
     io_bind (io_lift (py_get extracted_params ''spark_app_main_class'' JNull)) (\<lambda>spark_app_main_class.
     io_bind (io_lift (py_get extracted_params ''spark_args'' JNull)) (\<lambda>spark_args.
     io_bind (io_lift (py_get extracted_params ''dataproc_serverless_runtime_version'' JNull)) (\<lambda>dataproc_serverless_runtime_version.
     io_bind (io_lift (py_get extracted_params ''dataproc_service_account'' JNull)) (\<lambda>dataproc_service_account.
     io_bind (io_lift (py_get extracted_params ''spark_app_properties'' JNull)) (\<lambda>spark_app_properties_raw.
     io_bind (io_lift (py_get extracted_params ''subnetwork'' JNull)) (\<lambda>subnetwork.
     io_bind (case spark_app_properties_raw of
                JStr s \<Rightarrow> io_lift (json_loads env s)
              | _ \<Rightarrow> io_return spark_app_properties_raw) (\<lambda>spark_app_properties.
     io_bind (io_call TokenRefresh (refresh_token env)) (\<lambda>token.
       (let headers = [(''Authorization'', ''Bearer '' @ py_str env token)];
            timestamp = py_round (now_timestamp env);
            params = JObj
              [(''spark_batch'', JObj
                  [(''jar_file_uris'', JArr [jar_file_location]),
                   (''main_class'', spark_app_main_class),
                   (''args'', spark_args)]),
               (''runtime_config'', JObj
                  [(''version'', dataproc_serverless_runtime_version),
                   (''properties'', spark_app_properties)]),
               (''environment_config'', JObj
                  ([(''execution_config'', JObj
                       [(''service_account'', dataproc_service_account),
                        (''subnetwork_uri'', JStr
                           (''projects/'' @ py_str env dataproc_serverless_project_id @ ''/''
                              @ py_str env subnetwork))])]
                   @ (if py_truthy spark_history_server_cluster
                      then [(''peripherals_config'', JObj
                              [(''spark_history_server_config'', JObj
                                 [(''dataproc_cluster'', JStr
                                    (''projects/'' @ py_str env dataproc_serverless_project_id
                                       @ ''/regions/'' @ py_str env dataproc_serverless_region
                                       @ ''/clusters/'' @ py_str env spark_history_server_cluster))])])]
                      else [])))];
            batch_id = ''aef-'' @ str_int timestamp;
            url = ''https://dataproc.googleapis.com/v1/projects/''
                    @ py_str env dataproc_serverless_project_id @ ''/locations/''
                    @ py_str env dataproc_serverless_region @ ''/batches?batchId='' @ batch_id
        in io_bind (io_call (HttpPost url params headers) (requests_post env url params headers)) (\<lambda>response.
           if status_code response = 200 then io_return (JStr batch_id)
           else io_raise (py_exception
                  (''Dataproc API CREATE request failed. Status code:''
                     @ str_int (status_code response)))))))))))))))))"

text \<open>\<^verbatim>\<open>get_job_status\<close>.\<close>

definition get_job_status :: "env \<Rightarrow> json \<Rightarrow> json \<Rightarrow> json io" where
  "get_job_status env job_id extracted_params =
     io_bind (io_lift (py_get extracted_params ''dataproc_serverless_project_id'' JNull)) (\<lambda>dataproc_serverless_project_id.
     io_bind (io_lift (py_get extracted_params ''dataproc_serverless_region'' JNull)) (\<lambda>dataproc_serverless_region.
     io_bind (io_call TokenRefresh (refresh_token env)) (\<lambda>token.
       (let headers = [(''Authorization'', ''Bearer '' @ py_str env token)];
            url = ''https://dataproc.googleapis.com/v1/projects/''
                    @ py_str env dataproc_serverless_project_id @ ''/locations/''
                    @ py_str env dataproc_serverless_region @ ''/batches/'' @ py_str env job_id
        in io_bind (io_call (HttpGet url headers) (requests_get env url headers)) (\<lambda>response.
           if status_code response = 200
           then io_bind (io_lift (resp_json response)) (\<lambda>body. io_lift (py_get body ''state'' JNull))
           else io_raise (py_exception
                  (''Dataproc API GET request failed. Status code:''
                     @ str_int (status_code response))))))))"

text \<open>\<^verbatim>\<open>execute_job_or_get_status\<close>: the branch is on the truth value of \<open>job_id\<close>.\<close>

definition execute_job_or_get_status ::
  "env \<Rightarrow> json \<Rightarrow> json \<Rightarrow> json \<Rightarrow> json \<Rightarrow> json \<Rightarrow> json \<Rightarrow> json io" where
  "execute_job_or_get_status env job_id workflow_name job_name query_variables workflow_properties extracted_params =
     (if py_truthy job_id then get_job_status env job_id extracted_params
      else create_batch_job env workflow_name job_name query_variables workflow_properties extracted_params)"

text \<open>
  The request of the web framework: whether its content type is JSON, and its body.
  \<^verbatim>\<open>request.get_json(silent=True)\<close> is \<^verbatim>\<open>None\<close> when the content type is not JSON, and
  when the parser raises a \<^verbatim>\<open>ValueError\<close> (a \<^verbatim>\<open>JSONDecodeError\<close> is one); any other
  exception of the parser, such as the \<^verbatim>\<open>RecursionError\<close> of a deeply nested body, leaves
  the call.
\<close>

record request =
  is_json :: bool
  body :: string

definition get_json_silent :: "env \<Rightarrow> request \<Rightarrow> exn + json" where
  "get_json_silent env rq =
     (if is_json rq
      then (case request_loads env (body rq) of
              Inl e \<Rightarrow> (if isinstance e [''builtins.ValueError''] then Inr JNull else Inl e)
            | Inr v \<Rightarrow> Inr v)
      else Inr JNull)"

text \<open>
  The body of the \<^verbatim>\<open>try\<close> statement of \<^verbatim>\<open>main\<close>. The \<^verbatim>\<open>print\<close> calls from there on write
  lines of a log and are taken to return.
\<close>

definition main_try :: "env \<Rightarrow> json \<Rightarrow> json io" where
  "main_try env request_json =
     io_bind (io_lift (py_get request_json ''workflow_properties'' JNull)) (\<lambda>workflow_properties.
     io_bind (io_lift (py_get request_json ''workflow_name'' JNull)) (\<lambda>workflow_name.
     io_bind (io_lift (py_get request_json ''job_name'' JNull)) (\<lambda>job_name.
     io_bind (io_lift (py_get request_json ''query_variables'' JNull)) (\<lambda>query_variables.
     io_bind (io_lift (py_get request_json ''job_id'' JNull)) (\<lambda>job_id.
     io_bind (io_lift (py_get request_json ''workflow_properties'' (JObj []))) (\<lambda>properties.
     io_bind (io_lift (py_get properties ''jobs_definitions_bucket'' JNull)) (\<lambda>jobs_definitions_bucket.
     io_bind (if py_truthy jobs_definitions_bucket
              then extract_params env jobs_definitions_bucket job_name (function_name env)
              else io_return (JObj [])) (\<lambda>extracted_params.
     io_bind (execute_job_or_get_status env job_id workflow_name job_name query_variables
                workflow_properties extracted_params) (\<lambda>status_or_job_id.
     io_bind (io_lift (py_startswith status_or_job_id ''aef-'')) (\<lambda>tracked.
     io_return status_or_job_id))))))))))"

text \<open>
  \<^verbatim>\<open>main\<close>. Lines 45 and 46, the decoding of the body and the \<^verbatim>\<open>print\<close> of the event,
  stand before the \<^verbatim>\<open>try\<close> statement: what they raise leaves \<^verbatim>\<open>main\<close>. The handler of
  \<^verbatim>\<open>except Exception\<close> catches whatever the body of the \<^verbatim>\<open>try\<close> raises and returns the
  dict with the keys \<^verbatim>\<open>error\<close> and \<^verbatim>\<open>message\<close>.
\<close>

definition error_response :: "exn \<Rightarrow> json" where
  "error_response error =
     JObj [(''error'', JStr (class_name error)), (''message'', JStr (repr_exn error))]"

definition main :: "env \<Rightarrow> request \<Rightarrow> json io" where
  "main env rq =
     io_bind (io_lift (get_json_silent env rq)) (\<lambda>request_json.
     io_bind (io_lift (print_event env (''event:'' @ py_str env request_json))) (\<lambda>printed.
     io_except (main_try env request_json) (\<lambda>error. True)
       (\<lambda>error. io_return (error_response error))))"

section \<open>Views of the model used to state properties\<close>

text \<open>
  The values of the local variables of \<open>create_batch_job\<close> and \<open>get_job_status\<close> as
  functions of the parameter dict, and two readers of a JSON value. The lemmas
  \<open>create_batch_job_dict\<close> and \<open>get_job_status_dict\<close> below prove that the two functions
  compute exactly these.
\<close>

definition json_field :: "json \<Rightarrow> string \<Rightarrow> json option" where
  "json_field v key = (case v of JObj kvs \<Rightarrow> map_of kvs key | _ \<Rightarrow> None)"

fun json_at :: "string list \<Rightarrow> json \<Rightarrow> json option" where
  "json_at [] v = Some v"
| "json_at (k # ks) v = (case json_field v k of None \<Rightarrow> None | Some w \<Rightarrow> json_at ks w)"

definition dict_get :: "(string \<times> json) list \<Rightarrow> string \<Rightarrow> json" where
  "dict_get kvs key = (case map_of kvs key of None \<Rightarrow> JNull | Some x \<Rightarrow> x)"

definition resolve_properties :: "env \<Rightarrow> json \<Rightarrow> exn + json" where
  "resolve_properties env raw = (case raw of JStr s \<Rightarrow> json_loads env s | _ \<Rightarrow> Inr raw)"

definition auth_headers :: "env \<Rightarrow> json \<Rightarrow> (string \<times> string) list" where
  "auth_headers env token = [(''Authorization'', ''Bearer '' @ py_str env token)]"

definition batch_id :: "env \<Rightarrow> string" where
  "batch_id env = ''aef-'' @ str_int (py_round (now_timestamp env))"

definition create_url :: "env \<Rightarrow> (string \<times> json) list \<Rightarrow> string" where
  "create_url env kvs =
     ''https://dataproc.googleapis.com/v1/projects/''
       @ py_str env (dict_get kvs ''dataproc_serverless_project_id'') @ ''/locations/''
       @ py_str env (dict_get kvs ''dataproc_serverless_region'') @ ''/batches?batchId='' @ batch_id env"

definition status_url :: "env \<Rightarrow> json \<Rightarrow> (string \<times> json) list \<Rightarrow> string" where
  "status_url env job_id kvs =
     ''https://dataproc.googleapis.com/v1/projects/''
       @ py_str env (dict_get kvs ''dataproc_serverless_project_id'') @ ''/locations/''
       @ py_str env (dict_get kvs ''dataproc_serverless_region'') @ ''/batches/'' @ py_str env job_id"

definition cluster_path :: "env \<Rightarrow> (string \<times> json) list \<Rightarrow> string" where
  "cluster_path env kvs =
     ''projects/'' @ py_str env (dict_get kvs ''dataproc_serverless_project_id'')
       @ ''/regions/'' @ py_str env (dict_get kvs ''dataproc_serverless_region'')
       @ ''/clusters/'' @ py_str env (dict_get kvs ''spark_history_server_cluster'')"

definition batch_payload :: "env \<Rightarrow> (string \<times> json) list \<Rightarrow> json \<Rightarrow> json" where
  "batch_payload env kvs props = JObj
     [(''spark_batch'', JObj
         [(''jar_file_uris'', JArr [dict_get kvs ''jar_file_location'']),
          (''main_class'', dict_get kvs ''spark_app_main_class''),
          (''args'', dict_get kvs ''spark_args'')]),
      (''runtime_config'', JObj
         [(''version'', dict_get kvs ''dataproc_serverless_runtime_version''),
          (''properties'', props)]),
      (''environment_config'', JObj
         ([(''execution_config'', JObj
              [(''service_account'', dict_get kvs ''dataproc_service_account''),
               (''subnetwork_uri'', JStr
                  (''projects/'' @ py_str env (dict_get kvs ''dataproc_serverless_project_id'') @ ''/''
                     @ py_str env (dict_get kvs ''subnetwork'')))])]
          @ (if py_truthy (dict_get kvs ''spark_history_server_cluster'')
             then [(''peripherals_config'', JObj
                     [(''spark_history_server_config'', JObj
                        [(''dataproc_cluster'', JStr (cluster_path env kvs))])])]
             else [])))]"

definition create_outcome :: "env \<Rightarrow> response \<Rightarrow> exn + json" where
  "create_outcome env resp =
     (if status_code resp = 200 then Inr (JStr (batch_id env))
      else Inl (py_exception (''Dataproc API CREATE request failed. Status code:''
                                @ str_int (status_code resp))))"

definition status_outcome :: "response \<Rightarrow> exn + json" where
  "status_outcome resp =
     (if status_code resp = 200
      then (case resp_json resp of Inl e \<Rightarrow> Inl e | Inr b \<Rightarrow> py_get b ''state'' JNull)
      else Inl (py_exception (''Dataproc API GET request failed. Status code:''
                                @ str_int (status_code resp))))"

text \<open>The characters that \<open>repr\<close> of a str keeps as they are between single quotes.\<close>

definition plain_char :: "char \<Rightarrow> bool" where
  "plain_char c = (c \<noteq> sq \<and> c \<noteq> backslash \<and> 32 \<le> (of_char c :: nat) \<and> (of_char c :: nat) \<noteq> 127)"

section \<open>A sample world\<close>

text \<open>
  One concrete world and three requests, at which the theorems are instantiated: a bucket
  \<open>b\<close> holding the job definition \<open>fn/j.json\<close>, a remote API that answers 200, a clock
  that reads 100.25 seconds, and a parser of request bodies that, like \<open>json.loads\<close>, gives
  up with RecursionError on a body that opens a thousand arrays.
\<close>

definition quoted :: "string \<Rightarrow> string" where
  "quoted s = dq # s @ [dq]"

definition not_found :: exn where
  "not_found = Exn ''NotFound''
     [''google.api_core.exceptions.GoogleAPIError'', ''google.api_core.exceptions.GoogleAPICallError'',
      ''google.api_core.exceptions.ClientError'', ''google.api_core.exceptions.NotFound'']
     (''NotFound('' @ [sq] @ ''No such object: b/fn/j.json'' @ [sq] @ '')'')"

definition json_decode_error :: exn where
  "json_decode_error = Exn ''JSONDecodeError''
     [''builtins.ValueError'', ''json.decoder.JSONDecodeError'']
     (''JSONDecodeError('' @ [sq] @ ''Expecting value: line 1 column 1 (char 0)'' @ [sq] @ '')'')"

definition recursion_error :: exn where
  "recursion_error = Exn ''RecursionError''
     [''builtins.RuntimeError'', ''builtins.RecursionError'']
     (''RecursionError('' @ [sq]
        @ ''maximum recursion depth exceeded while decoding a JSON array from a unicode string''
        @ [sq] @ '')'')"

definition demo_properties_text :: string where
  "demo_properties_text = ''{'' @ quoted ''k'' @ '':'' @ quoted ''v'' @ ''}''"

definition demo_kvs :: "(string \<times> json) list" where
  "demo_kvs =
     [(''dataproc_serverless_project_id'', JStr ''p''),
      (''dataproc_serverless_region'', JStr ''r''),
      (''jar_file_location'', JStr ''gs://jars/app.jar''),
      (''spark_history_server_cluster'', JStr ''hist''),
      (''spark_app_main_class'', JStr ''Main''),
      (''spark_args'', JArr [JStr ''a'']),
      (''dataproc_serverless_runtime_version'', JStr ''2.1''),
      (''dataproc_service_account'', JStr ''sa''),
      (''spark_app_properties'', JStr demo_properties_text),
      (''subnetwork'', JStr ''regions/r/subnetworks/s'')]"

definition plain_kvs :: "(string \<times> json) list" where
  "plain_kvs =
     [(''dataproc_serverless_project_id'', JStr ''p''),
      (''dataproc_serverless_region'', JStr ''r''),
      (''spark_history_server_cluster'', JStr []),
      (''spark_app_properties'', JObj [(''k'', JStr ''v'')])]"

definition demo_blob :: string where
  "demo_blob = ''<the job definition of j>''"

definition demo_response :: "int \<Rightarrow> string \<Rightarrow> json \<Rightarrow> response" where
  "demo_response code txt js = \<lparr>status_code = code, resp_text = txt, resp_json = Inr js\<rparr>"

definition creation_request :: json where
  "creation_request = JObj
     [(''workflow_name'', JStr ''w''), (''job_name'', JStr ''j''),
      (''workflow_properties'', JObj [(''jobs_definitions_bucket'', JStr ''b'')])]"

definition status_request :: json where
  "status_request = JObj
     [(''workflow_name'', JStr ''w''), (''job_name'', JStr ''j''), (''job_id'', JStr ''aef-100''),
      (''workflow_properties'', JObj [(''jobs_definitions_bucket'', JStr ''b'')])]"

definition empty_id_request :: json where
  "empty_id_request = JObj
     [(''workflow_name'', JStr ''w''), (''job_name'', JStr ''j''), (''job_id'', JStr []),
      (''workflow_properties'', JObj [(''jobs_definitions_bucket'', JStr ''b'')])]"

definition creation_body :: string where
  "creation_body =
     ''{'' @ quoted ''workflow_name'' @ '':'' @ quoted ''w'' @ '','' @ quoted ''job_name'' @ '':''
       @ quoted ''j'' @ '','' @ quoted ''workflow_properties'' @ '':{''
       @ quoted ''jobs_definitions_bucket'' @ '':'' @ quoted ''b'' @ ''}}''"

definition status_body :: string where
  "status_body =
     ''{'' @ quoted ''workflow_name'' @ '':'' @ quoted ''w'' @ '','' @ quoted ''job_name'' @ '':''
       @ quoted ''j'' @ '','' @ quoted ''job_id'' @ '':'' @ quoted ''aef-100'' @ '',''
       @ quoted ''workflow_properties'' @ '':{''
       @ quoted ''jobs_definitions_bucket'' @ '':'' @ quoted ''b'' @ ''}}''"

definition demo_env :: env where
  "demo_env =
     \<lparr>function_name = JStr ''fn'',
      request_loads = (\<lambda>s. if s = creation_body then Inr creation_request
                           else if s = status_body then Inr status_request
                           else if 1000 \<le> length (takeWhile (\<lambda>c. c = CHR ''['') s)
                             then Inl recursion_error
                           else Inl json_decode_error),
      print_event = (\<lambda>s. Inr ()),
      make_blob = (\<lambda>b k. Inr ()),
      download_as_bytes = (\<lambda>b k. if b = ''b'' \<and> k = ''fn/j.json'' then Inr demo_blob else Inl not_found),
      bytes_decode = Inr,
      json_loads = (\<lambda>s. if s = demo_blob then Inr (JObj demo_kvs)
                        else if s = demo_properties_text then Inr (JObj [(''k'', JStr ''v'')])
                        else Inl json_decode_error),
      refresh_token = Inr (JStr ''tok''),
      now_timestamp = 401 / 4,
      requests_post = (\<lambda>u p h. Inr (demo_response 200 ''{}'' (JObj []))),
      requests_get = (\<lambda>u h. Inr (demo_response 200 ''{}'' (JObj [(''state'', JStr ''RUNNING'')]))),
      str_other = (\<lambda>v. ''?'')\<rparr>"

section \<open>Properties of the model\<close>

lemma io_bind_lift_Inr [simp]: "io_bind (io_lift (Inr a)) f = f a"
  by (simp add: io_bind_def io_lift_def)

lemma io_bind_lift_Inl [simp]: "io_bind (io_lift (Inl e)) f = ([], Inl e)"
  by (simp add: io_bind_def io_lift_def)

lemma io_bind_return [simp]: "io_bind (io_return a) f = f a"
  by (simp add: io_bind_def io_return_def)

lemma io_bind_call_Inr [simp]: "io_bind (io_call eff (Inr a)) f = (eff # fst (f a), snd (f a))"
  by (simp add: io_bind_def io_call_def split: prod.splits)

lemma io_bind_call_Inl [simp]: "io_bind (io_call eff (Inl e)) f = ([eff], Inl e)"
  by (simp add: io_bind_def io_call_def)

lemma fst_io_bind: "fst (io_bind m f) = fst m @ (case snd m of Inl e \<Rightarrow> [] | Inr a \<Rightarrow> fst (f a))"
  by (simp add: io_bind_def split: prod.splits sum.splits)

lemma snd_io_bind: "snd (io_bind m f) = (case snd m of Inl e \<Rightarrow> Inl e | Inr a \<Rightarrow> snd (f a))"
  by (simp add: io_bind_def split: prod.splits sum.splits)

lemma py_get_dict [simp]: "py_get (JObj kvs) key JNull = Inr (dict_get kvs key)"
  by (simp add: py_get_def dict_get_def)

lemma py_get_not_dict:
  "\<forall>kvs. v \<noteq> JObj kvs \<Longrightarrow> py_get v key dflt = Inl (attribute_error v ''get'')"
  by (cases v) (simp_all add: py_get_def)




lemma bind_resolve:
  "io_bind (case raw of JStr s \<Rightarrow> io_lift (json_loads env s) | _ \<Rightarrow> io_return raw) f =
     (case resolve_properties env raw of Inl e \<Rightarrow> ([], Inl e) | Inr props \<Rightarrow> f props)"
  by (cases raw) (simp_all add: resolve_properties_def split: sum.splits)

lemma bind_call:
  "io_bind (io_call eff r) f =
     (case r of Inl e \<Rightarrow> ([eff], Inl e) | Inr a \<Rightarrow> (eff # fst (f a), snd (f a)))"
  by (cases r) simp_all

lemma if_io:
  "(if c then io_return a else io_raise e) = ([], if c then Inr a else Inl e)"
  by (simp add: io_return_def io_raise_def)

lemma create_batch_job_dict:
  "create_batch_job env wn jn qv wp (JObj kvs) =
     (case resolve_properties env (dict_get kvs ''spark_app_properties'') of
        Inl e \<Rightarrow> ([], Inl e)
      | Inr props \<Rightarrow>
          (case refresh_token env of
             Inl e \<Rightarrow> ([TokenRefresh], Inl e)
           | Inr token \<Rightarrow>
               ([TokenRefresh,
                 HttpPost (create_url env kvs) (batch_payload env kvs props) (auth_headers env token)],
                case requests_post env (create_url env kvs) (batch_payload env kvs props)
                       (auth_headers env token) of
                  Inl e \<Rightarrow> Inl e
                | Inr resp \<Rightarrow> create_outcome env resp)))"
proof (cases "resolve_properties env (dict_get kvs ''spark_app_properties'')")
  case (Inl e)
  then show ?thesis
    unfolding create_batch_job_def py_get_dict io_bind_lift_Inr bind_resolve
    by (simp only: sum.case)
next
  case props: (Inr props)
  show ?thesis
  proof (cases "refresh_token env")
    case (Inl e)
    with props show ?thesis
      unfolding create_batch_job_def py_get_dict io_bind_lift_Inr bind_resolve bind_call
      by (simp only: sum.case)
  next
    case tok: (Inr token)
    show ?thesis
    proof (cases "requests_post env (create_url env kvs) (batch_payload env kvs props) (auth_headers env token)")
      case (Inl e)
      with props tok show ?thesis
        unfolding create_batch_job_def py_get_dict io_bind_lift_Inr bind_resolve bind_call Let_def
          batch_payload_def create_url_def auth_headers_def batch_id_def cluster_path_def
        by (simp only: sum.case fst_conv snd_conv)
    next
      case (Inr resp)
      with props tok show ?thesis
        unfolding create_batch_job_def py_get_dict io_bind_lift_Inr bind_resolve bind_call Let_def
          batch_payload_def create_url_def auth_headers_def batch_id_def cluster_path_def
          create_outcome_def if_io
        by (simp only: sum.case fst_conv snd_conv)
    qed
  qed
qed


lemma status_lift:
  "(if c then io_bind (io_lift r) (\<lambda>b. io_lift (g b)) else io_raise e) =
     ([], if c then (case r of Inl x \<Rightarrow> Inl x | Inr b \<Rightarrow> g b) else Inl e)"
  by (cases r) (simp_all add: io_raise_def io_lift_def io_bind_def)

lemma get_job_status_not_dict:
  "\<forall>kvs. ep \<noteq> JObj kvs \<Longrightarrow>
     get_job_status env job_id ep = ([], Inl (attribute_error ep ''get''))"
  by (simp add: get_job_status_def py_get_not_dict)

lemma get_job_status_dict:
  "get_job_status env job_id (JObj kvs) =
     (case refresh_token env of
        Inl e \<Rightarrow> ([TokenRefresh], Inl e)
      | Inr token \<Rightarrow>
          ([TokenRefresh, HttpGet (status_url env job_id kvs) (auth_headers env token)],
           case requests_get env (status_url env job_id kvs) (auth_headers env token) of
             Inl e \<Rightarrow> Inl e
           | Inr resp \<Rightarrow> status_outcome resp))"
proof (cases "refresh_token env")
  case (Inl e)
  then show ?thesis
    unfolding get_job_status_def py_get_dict io_bind_lift_Inr bind_call
    by (simp only: sum.case)
next
  case tok: (Inr token)
  show ?thesis
  proof (cases "requests_get env (status_url env job_id kvs) (auth_headers env token)")
    case (Inl e)
    with tok show ?thesis
      unfolding get_job_status_def py_get_dict io_bind_lift_Inr bind_call Let_def
        status_url_def auth_headers_def
      by (simp only: sum.case fst_conv snd_conv)
  next
    case (Inr resp)
    with tok show ?thesis
      unfolding get_job_status_def py_get_dict io_bind_lift_Inr bind_call Let_def
        status_url_def auth_headers_def status_outcome_def status_lift
      by (simp only: sum.case fst_conv snd_conv)
  qed
qed

lemma extract_params_trace:
  "x \<in> set (fst (extract_params env b j f)) \<Longrightarrow> \<exists>bk k. x = BlobDownload bk k"
  unfolding extract_params_def Let_def
  by (auto simp: io_except_def io_bind_def io_call_def io_lift_def io_return_def io_raise_def
      split: list.splits sum.splits prod.splits if_splits)


lemma main_try_not_dict:
  "\<forall>kvs. j \<noteq> JObj kvs \<Longrightarrow> main_try env j = ([], Inl (attribute_error j ''get''))"
  by (simp add: main_try_def py_get_not_dict)

lemma io_bind_pair:
  "io_bind (t, r) f = (case r of Inl e \<Rightarrow> (t, Inl e) | Inr a \<Rightarrow> (t @ fst (f a), snd (f a)))"
  by (simp add: io_bind_def split: sum.splits prod.splits)

lemma finish_bind:
  "io_bind m (\<lambda>s. io_bind (io_lift (py_startswith s p)) (\<lambda>tracked. io_return s)) =
     (fst m, case snd m of Inl e \<Rightarrow> Inl e
             | Inr s \<Rightarrow> (case py_startswith s p of Inl e \<Rightarrow> Inl e | Inr tracked \<Rightarrow> Inr s))"
  by (cases m) (simp add: io_bind_def io_lift_def io_return_def split: sum.splits)

lemma main_try_shape:
  "(\<exists>t e. main_try env j = (t, Inl e) \<and> (\<forall>x\<in>set t. \<exists>bk k. x = BlobDownload bk k))
   \<or> (\<exists>t jid wn jn qv wp ep.
         (\<forall>x\<in>set t. \<exists>bk k. x = BlobDownload bk k) \<and>
         py_get j ''job_id'' JNull = Inr jid \<and>
         main_try env j =
           (t @ fst (execute_job_or_get_status env jid wn jn qv wp ep),
            case snd (execute_job_or_get_status env jid wn jn qv wp ep) of
              Inl e \<Rightarrow> Inl e
            | Inr s \<Rightarrow> (case py_startswith s ''aef-'' of Inl e \<Rightarrow> Inl e | Inr tracked \<Rightarrow> Inr s)))"
proof (cases "\<exists>kvs. j = JObj kvs")
  case False
  then have "main_try env j = ([], Inl (attribute_error j ''get''))"
    by (simp add: main_try_not_dict)
  then show ?thesis by simp
next
  case True
  then obtain kvs where j: "j = JObj kvs" by blast
  define properties where "properties = (case map_of kvs ''workflow_properties'' of None \<Rightarrow> JObj [] | Some x \<Rightarrow> x)"
  have get_props: "py_get j ''workflow_properties'' (JObj []) = Inr properties"
    by (simp add: j py_get_def properties_def)
  show ?thesis
  proof (cases "\<exists>ps. properties = JObj ps")
    case False
    then have "py_get properties ''jobs_definitions_bucket'' JNull = Inl (attribute_error properties ''get'')"
      by (simp add: py_get_not_dict)
    then have "main_try env j = ([], Inl (attribute_error properties ''get''))"
      unfolding main_try_def get_props by (simp add: j)
    then show ?thesis by simp
  next
    case True
    then obtain ps where ps: "properties = JObj ps" by blast
    define loaded where "loaded =
      (if py_truthy (dict_get ps ''jobs_definitions_bucket'')
       then extract_params env (dict_get ps ''jobs_definitions_bucket'') (dict_get kvs ''job_name'') (function_name env)
       else io_return (JObj []))"
    have trace: "\<forall>x\<in>set (fst loaded). \<exists>bk k. x = BlobDownload bk k"
      by (auto simp: loaded_def io_return_def dest: extract_params_trace)
    have unfold: "main_try env j =
      io_bind loaded (\<lambda>ep.
        io_bind (execute_job_or_get_status env (dict_get kvs ''job_id'') (dict_get kvs ''workflow_name'')
                   (dict_get kvs ''job_name'') (dict_get kvs ''query_variables'')
                   (dict_get kvs ''workflow_properties'') ep) (\<lambda>s.
        io_bind (io_lift (py_startswith s ''aef-'')) (\<lambda>tracked. io_return s)))"
      unfolding main_try_def get_props
      by (simp add: j ps loaded_def)
    show ?thesis
    proof (cases "snd loaded")
      case (Inl e)
      then have "main_try env j = (fst loaded, Inl e)"
        unfolding unfold by (cases loaded) (simp add: io_bind_def)
      with trace show ?thesis by blast
    next
      case (Inr ep)
      then have "main_try env j =
        (fst loaded @ fst (execute_job_or_get_status env (dict_get kvs ''job_id'') (dict_get kvs ''workflow_name'')
                   (dict_get kvs ''job_name'') (dict_get kvs ''query_variables'')
                   (dict_get kvs ''workflow_properties'') ep),
         case snd (execute_job_or_get_status env (dict_get kvs ''job_id'') (dict_get kvs ''workflow_name'')
                   (dict_get kvs ''job_name'') (dict_get kvs ''query_variables'')
                   (dict_get kvs ''workflow_properties'') ep) of
              Inl e \<Rightarrow> Inl e
            | Inr s \<Rightarrow> (case py_startswith s ''aef-'' of Inl e \<Rightarrow> Inl e | Inr tracked \<Rightarrow> Inr s))"
        unfolding unfold finish_bind by (cases loaded) (simp add: io_bind_pair)
      moreover have "py_get j ''job_id'' JNull = Inr (dict_get kvs ''job_id'')"
        by (simp add: j)
      ultimately show ?thesis using trace by blast
    qed
  qed
qed

lemma main_cases:
  "main env rq =
     (case get_json_silent env rq of
        Inl e \<Rightarrow> ([], Inl e)
      | Inr request_json \<Rightarrow>
          (case print_event env (''event:'' @ py_str env request_json) of
             Inl e \<Rightarrow> ([], Inl e)
           | Inr printed \<Rightarrow>
               (fst (main_try env request_json),
                case snd (main_try env request_json) of
                  Inl e \<Rightarrow> Inr (error_response e)
                | Inr v \<Rightarrow> Inr v)))"
proof (cases "get_json_silent env rq")
  case (Inl e)
  then show ?thesis by (simp add: main_def)
next
  case decoded: (Inr request_json)
  show ?thesis
  proof (cases "print_event env (''event:'' @ py_str env request_json)")
    case (Inl e)
    with decoded show ?thesis by (simp add: main_def)
  next
    case (Inr printed)
    with decoded show ?thesis
      by (cases "main_try env request_json")
         (simp add: main_def io_except_def io_return_def split: sum.splits)
  qed
qed

lemma main_of_main_try:
  assumes "get_json_silent env rq = Inr request_json"
      and "print_event env (''event:'' @ py_str env request_json) = Inr printed"
  shows "main env rq =
     (fst (main_try env request_json),
      case snd (main_try env request_json) of
        Inl e \<Rightarrow> Inr (error_response e)
      | Inr v \<Rightarrow> Inr v)"
  using assms by (simp add: main_cases)

lemma main_call_decoded:
  assumes "x \<in> set (fst (main env rq))"
  shows "\<exists>request_json.
           get_json_silent env rq = Inr request_json
         \<and> x \<in> set (fst (main_try env request_json))
         \<and> snd (main env rq) =
             (case snd (main_try env request_json) of
                Inl e \<Rightarrow> Inr (error_response e)
              | Inr v \<Rightarrow> Inr v)"
proof (cases "get_json_silent env rq")
  case (Inl e)
  with assms show ?thesis by (simp add: main_cases)
next
  case decoded: (Inr request_json)
  show ?thesis
  proof (cases "print_event env (''event:'' @ py_str env request_json)")
    case (Inl e)
    with assms decoded show ?thesis by (simp add: main_cases)
  next
    case (Inr printed)
    with assms decoded show ?thesis by (simp add: main_cases)
  qed
qed

lemma snd_io_bind_Inr:
  "snd (io_bind m f) = Inr v \<Longrightarrow> \<exists>a. snd m = Inr a \<and> snd (f a) = Inr v"
  by (auto simp: io_bind_def split: prod.splits sum.splits)

lemma create_batch_job_not_dict:
  "\<forall>kvs. ep \<noteq> JObj kvs \<Longrightarrow>
     create_batch_job env wn jn qv wp ep = ([], Inl (attribute_error ep ''get''))"
  by (simp add: create_batch_job_def py_get_not_dict)

lemma py_startswith_Inr: "py_startswith v p = Inr b \<Longrightarrow> \<exists>s. v = JStr s"
  by (cases v) (simp_all add: py_startswith_def)

lemma main_try_returns_str:
  assumes "snd (main_try env j) = Inr v"
  shows "\<exists>s. v = JStr s"
proof -
  have "\<not> (\<exists>t e. main_try env j = (t, Inl e) \<and> (\<forall>x\<in>set t. \<exists>bk k. x = BlobDownload bk k))"
    using assms by auto
  with main_try_shape [of env j]
  obtain t jid wn jn qv wp ep where
    shape: "main_try env j =
           (t @ fst (execute_job_or_get_status env jid wn jn qv wp ep),
            case snd (execute_job_or_get_status env jid wn jn qv wp ep) of
              Inl e \<Rightarrow> Inl e
            | Inr s \<Rightarrow> (case py_startswith s ''aef-'' of Inl e \<Rightarrow> Inl e | Inr tracked \<Rightarrow> Inr s))"
    by blast
  have "Inr v = (case snd (execute_job_or_get_status env jid wn jn qv wp ep) of
              Inl e \<Rightarrow> Inl e
            | Inr s \<Rightarrow> (case py_startswith s ''aef-'' of Inl e \<Rightarrow> Inl e | Inr tracked \<Rightarrow> Inr s))"
    using assms unfolding shape by simp
  then obtain b where "py_startswith v ''aef-'' = Inr b"
    by (auto split: sum.splits)
  then show ?thesis by (rule py_startswith_Inr)
qed

lemma create_batch_job_no_get: "HttpGet u h \<notin> set (fst (create_batch_job env wn jn qv wp ep))"
proof (cases "\<exists>kvs. ep = JObj kvs")
  case True
  then show ?thesis
    by (auto simp: create_batch_job_dict split: sum.splits)
next
  case False
  then show ?thesis by (simp add: create_batch_job_not_dict)
qed

lemma get_job_status_no_post: "HttpPost u p h \<notin> set (fst (get_job_status env job_id ep))"
proof (cases "\<exists>kvs. ep = JObj kvs")
  case True
  then show ?thesis
    by (auto simp: get_job_status_dict split: sum.splits)
next
  case False
  then show ?thesis by (simp add: get_job_status_not_dict)
qed

lemma create_batch_job_posted:
  assumes "HttpPost u p h \<in> set (fst (create_batch_job env wn jn qv wp ep))"
  shows "\<exists>kvs props token.
           ep = JObj kvs
         \<and> resolve_properties env (dict_get kvs ''spark_app_properties'') = Inr props
         \<and> refresh_token env = Inr token
         \<and> u = create_url env kvs \<and> p = batch_payload env kvs props \<and> h = auth_headers env token
         \<and> create_batch_job env wn jn qv wp ep =
             ([TokenRefresh, HttpPost u p h],
              case requests_post env u p h of Inl e \<Rightarrow> Inl e | Inr resp \<Rightarrow> create_outcome env resp)"
proof (cases "\<exists>kvs. ep = JObj kvs")
  case False
  with assms show ?thesis by (simp add: create_batch_job_not_dict)
next
  case True
  then obtain kvs where ep: "ep = JObj kvs" by blast
  show ?thesis
  proof (cases "resolve_properties env (dict_get kvs ''spark_app_properties'')")
    case (Inl e)
    with assms show ?thesis by (simp add: ep create_batch_job_dict)
  next
    case props: (Inr props)
    show ?thesis
    proof (cases "refresh_token env")
      case (Inl e)
      with assms props show ?thesis by (simp add: ep create_batch_job_dict)
    next
      case (Inr token)
      with assms props show ?thesis by (simp add: ep create_batch_job_dict)
    qed
  qed
qed

lemma get_job_status_got:
  assumes "HttpGet u h \<in> set (fst (get_job_status env job_id ep))"
  shows "\<exists>kvs token.
           ep = JObj kvs
         \<and> refresh_token env = Inr token
         \<and> u = status_url env job_id kvs \<and> h = auth_headers env token
         \<and> get_job_status env job_id ep =
             ([TokenRefresh, HttpGet u h],
              case requests_get env u h of Inl e \<Rightarrow> Inl e | Inr resp \<Rightarrow> status_outcome resp)"
proof (cases "\<exists>kvs. ep = JObj kvs")
  case False
  with assms show ?thesis by (simp add: get_job_status_not_dict)
next
  case True
  then obtain kvs where ep: "ep = JObj kvs" by blast
  show ?thesis
  proof (cases "refresh_token env")
    case (Inl e)
    with assms show ?thesis by (simp add: ep get_job_status_dict)
  next
    case (Inr token)
    with assms show ?thesis by (simp add: ep get_job_status_dict)
  qed
qed

lemma json_at_payload_peripherals:
  "json_at [''environment_config'', ''peripherals_config''] (batch_payload env kvs props) =
     (if py_truthy (dict_get kvs ''spark_history_server_cluster'')
      then Some (JObj [(''spark_history_server_config'', JObj
                        [(''dataproc_cluster'', JStr (cluster_path env kvs))])])
      else None)"
  by (simp add: batch_payload_def json_field_def)

lemma json_at_payload_cluster:
  "py_truthy (dict_get kvs ''spark_history_server_cluster'') \<Longrightarrow>
   json_at [''environment_config'', ''peripherals_config'', ''spark_history_server_config'',
            ''dataproc_cluster''] (batch_payload env kvs props) = Some (JStr (cluster_path env kvs))"
  by (simp add: batch_payload_def json_field_def)

lemma json_at_payload_properties:
  "json_at [''runtime_config'', ''properties''] (batch_payload env kvs props) = Some props"
  by (simp add: batch_payload_def json_field_def)

lemma creation_posts:
  assumes "resolve_properties env (dict_get kvs ''spark_app_properties'') = Inr props"
      and "refresh_token env = Inr token"
  shows "HttpPost (create_url env kvs) (batch_payload env kvs props) (auth_headers env token)
           \<in> set (fst (create_batch_job env wn jn qv wp (JObj kvs)))"
  using assms by (simp add: create_batch_job_dict)

lemma demo_resolve:
  assumes "dict_get kvs ''spark_app_properties'' = JStr demo_properties_text"
  shows "resolve_properties (demo_env\<lparr>now_timestamp := t\<rparr>) (dict_get kvs ''spark_app_properties'')
           = Inr (JObj [(''k'', JStr ''v'')])"
  using assms by (simp add: resolve_properties_def demo_env_def demo_blob_def
      demo_properties_text_def quoted_def)

lemma demo_env_clock: "demo_env\<lparr>now_timestamp := 401 / 4\<rparr> = demo_env"
  by (simp add: demo_env_def)

lemma demo_token: "refresh_token (demo_env\<lparr>now_timestamp := t\<rparr>) = Inr (JStr ''tok'')"
  by (simp add: demo_env_def)

lemma demo_creation_posts:
  assumes "dict_get kvs ''spark_app_properties'' = JStr demo_properties_text"
  shows "HttpPost (create_url demo_env kvs) (batch_payload demo_env kvs (JObj [(''k'', JStr ''v'')]))
       (auth_headers demo_env (JStr ''tok''))
     \<in> set (fst (create_batch_job demo_env wn jn qv wp (JObj kvs)))"
  using creation_posts [OF demo_resolve [OF assms, of "401 / 4"] demo_token [of "401 / 4"]]
  unfolding demo_env_clock .

lemma digit_chars_upto_ten: "list_all (\<lambda>n. is_digit (digit_char n)) [0..<10]"
  by code_simp

lemma digit_char_is_digit: "n < 10 \<Longrightarrow> is_digit (digit_char n)"
  using digit_chars_upto_ten by (simp add: list_all_iff del: upt_Suc)

lemma digits_are_digits: "digits n \<noteq> [] \<and> list_all is_digit (digits n)"
proof (induction n rule: digits.induct)
  case (1 n)
  show ?case
  proof (cases "n < 10")
    case True
    then show ?thesis
      by (subst (1 2) digits.simps) (simp add: digit_char_is_digit)
  next
    case False
    with "1" show ?thesis
      by (subst (1 2) digits.simps) (simp add: digit_char_is_digit)
  qed
qed

lemma py_round_nonneg: "0 \<le> x \<Longrightarrow> 0 \<le> py_round x"
  by (simp add: py_round_def Let_def)

lemma str_int_nonneg_digits:
  "0 \<le> i \<Longrightarrow> str_int i \<noteq> [] \<and> list_all is_digit (str_int i)"
  by (simp add: str_int_def digits_are_digits)

lemma repr_char_plain:
  assumes "c \<noteq> sq" and "c \<noteq> backslash" and "32 \<le> (of_char c :: nat)" and "(of_char c :: nat) \<noteq> 127"
  shows "repr_char sq c = [c]"
proof -
  have "c \<noteq> CHR 0x09" "c \<noteq> CHR 0x0A" "c \<noteq> CHR 0x0D"
    using assms(3) by auto
  with assms show ?thesis by (simp add: repr_char_def)
qed

lemma concat_repr_plain: "list_all plain_char s \<Longrightarrow> concat (map (repr_char sq) s) = s"
  by (induction s) (simp_all add: plain_char_def repr_char_plain)

lemma py_repr_str_plain:
  assumes "list_all plain_char s"
  shows "py_repr_str s = sq # s @ [sq]"
proof -
  have "sq \<notin> set s"
    using assms by (auto simp: list_all_iff plain_char_def)
  then show ?thesis
    by (simp add: py_repr_str_def concat_repr_plain [OF assms])
qed

lemma digit_is_plain: "is_digit c \<Longrightarrow> plain_char c"
  by (auto simp: is_digit_def plain_char_def sq_def backslash_def)

lemma str_int_plain: "list_all plain_char (str_int i)"
proof -
  have "list_all plain_char (digits n)" for n
    using digits_are_digits [of n] by (auto simp: list_all_iff digit_is_plain)
  moreover have "plain_char CHR ''-''"
    by (simp add: plain_char_def sq_def backslash_def)
  ultimately show ?thesis by (simp add: str_int_def)
qed

lemma failure_message_plain:
  assumes "verb = ''CREATE'' \<or> verb = ''GET''"
  shows "list_all plain_char (''Dataproc API '' @ verb @ '' request failed. Status code:'' @ str_int i)"
proof -
  have "list_all plain_char ''Dataproc API ''" "list_all plain_char '' request failed. Status code:''"
    "list_all plain_char ''CREATE''" "list_all plain_char ''GET''"
    by (simp_all add: plain_char_def sq_def backslash_def)
  with assms show ?thesis
    by (auto simp: str_int_plain)
qed

lemma failure_repr:
  assumes "verb = ''CREATE'' \<or> verb = ''GET''"
  shows "error_response (py_exception (''Dataproc API '' @ verb @ '' request failed. Status code:'' @ str_int i))
     = JObj [(''error'', JStr ''Exception''),
             (''message'', JStr (''Exception('' @ [sq] @ ''Dataproc API '' @ verb
                @ '' request failed. Status code:'' @ str_int i @ [sq] @ '')''))]"
  unfolding error_response_def py_exception_def py_repr_str_plain [OF failure_message_plain [OF assms]]
  by simp

lemma execute_posted:
  assumes "HttpPost u p h \<in> set (fst (execute_job_or_get_status env jid wn jn qv wp ep))"
  shows "execute_job_or_get_status env jid wn jn qv wp ep = create_batch_job env wn jn qv wp ep"
  using assms by (simp add: execute_job_or_get_status_def get_job_status_no_post split: if_splits)

lemma execute_got:
  assumes "HttpGet u h \<in> set (fst (execute_job_or_get_status env jid wn jn qv wp ep))"
  shows "execute_job_or_get_status env jid wn jn qv wp ep = get_job_status env jid ep"
  using assms by (simp add: execute_job_or_get_status_def create_batch_job_no_get split: if_splits)

lemma main_try_remote_call:
  assumes "x \<in> set (fst (main_try env j))" and "\<forall>bk k. x \<noteq> BlobDownload bk k"
  shows "\<exists>jid wn jn qv wp ep.
           x \<in> set (fst (execute_job_or_get_status env jid wn jn qv wp ep))
         \<and> snd (main_try env j) =
             (case snd (execute_job_or_get_status env jid wn jn qv wp ep) of
                Inl e \<Rightarrow> Inl e
              | Inr s \<Rightarrow> (case py_startswith s ''aef-'' of Inl e \<Rightarrow> Inl e | Inr tracked \<Rightarrow> Inr s))"
proof -
  from main_try_shape [of env j]
  consider (raised) t e where "main_try env j = (t, Inl e)"
      and "\<forall>x\<in>set t. \<exists>bk k. x = BlobDownload bk k"
    | (ran) t jid wn jn qv wp ep where "\<forall>x\<in>set t. \<exists>bk k. x = BlobDownload bk k"
      and "main_try env j =
         (t @ fst (execute_job_or_get_status env jid wn jn qv wp ep),
          case snd (execute_job_or_get_status env jid wn jn qv wp ep) of
            Inl e \<Rightarrow> Inl e
          | Inr s \<Rightarrow> (case py_startswith s ''aef-'' of Inl e \<Rightarrow> Inl e | Inr tracked \<Rightarrow> Inr s))"
    by blast
  then show ?thesis
  proof cases
    case raised
    with assms show ?thesis by auto
  next
    case ran
    from assms ran(1) have "x \<notin> set t" by blast
    with assms(1) have "x \<in> set (fst (execute_job_or_get_status env jid wn jn qv wp ep))"
      unfolding ran(2) by simp
    then show ?thesis
      unfolding ran(2) by (intro exI conjI) simp_all
  qed
qed

lemma sublist_in_middle: "sublist s (a @ s @ b)"
  by (rule sublist_appendI)

lemma str_split_not_Nil: "str_split sep s \<noteq> []"
  by (induction s) (auto split: list.splits)

lemma str_replace_Nil: "old \<noteq> [] \<Longrightarrow> str_replace old new [] = []"
  by (simp add: str_replace.simps)

lemma str_replace_prefix:
  "old \<noteq> [] \<Longrightarrow> str_replace old new (old @ s) = new @ str_replace old new s"
  by (subst str_replace.simps) simp

lemma str_replace_absent:
  assumes "old \<noteq> []" and "\<not> sublist old s"
  shows "str_replace old new s = s"
  using assms(2)
proof (induction s)
  case Nil
  show ?case by (simp add: str_replace_Nil assms(1))
next
  case (Cons c cs)
  from Cons.prems have no_prefix: "\<not> prefix old (c # cs)"
    using prefix_imp_sublist by blast
  from Cons.prems have "\<not> sublist old cs"
    by (simp add: sublist_Cons_right)
  then have "str_replace old new cs = cs"
    by (rule Cons.IH)
  then show ?case
    by (subst str_replace.simps) (simp add: assms(1) no_prefix)
qed

lemma str_split_first:
  "sep \<notin> set b \<Longrightarrow> str_split sep (b @ sep # rest) = b # str_split sep rest"
  by (induction b) (auto split: list.splits)

lemma str_join_split: "str_join [sep] (str_split sep s) = s"
proof (induction s)
  case Nil
  show ?case by simp
next
  case (Cons c cs)
  obtain p ps where split: "str_split sep cs = p # ps"
    using str_split_not_Nil [of sep cs] by (cases "str_split sep cs") auto
  from Cons.IH have joined: "str_join [sep] (p # ps) = cs"
    by (simp add: split)
  show ?case
  proof (cases "c = sep")
    case True
    then show ?thesis by (simp add: split joined)
  next
    case False
    from joined have "str_join [sep] ((c # p) # ps) = c # cs"
      by (cases ps) simp_all
    with False show ?thesis by (simp add: split)
  qed
qed

lemma extract_params_reads_one_object:
  "\<exists>bucket object_name.
     extract_params env bucket_name job_name fn_name =
       (case make_blob env bucket object_name of
          Inl e \<Rightarrow> ([], Inl e)
        | Inr blob \<Rightarrow>
            ([BlobDownload bucket object_name],
             case (case download_as_bytes env bucket object_name of
                     Inl e \<Rightarrow> Inl e
                   | Inr json_data \<Rightarrow>
                       (case bytes_decode env json_data of
                          Inl e \<Rightarrow> Inl e
                        | Inr decoded \<Rightarrow> json_loads env decoded)) of
               Inl e \<Rightarrow>
                 if isinstance e [''google.api_core.exceptions.NotFound'',
                                  ''json.decoder.JSONDecodeError'',
                                  ''builtins.UnicodeDecodeError'']
                 then Inr JNull else Inl e
             | Inr params \<Rightarrow> Inr params))"
proof -
  let ?path = "''gs://'' @ py_str env bucket_name @ ''/'' @ py_str env fn_name @ ''/''
              @ py_str env job_name @ ''.json''"
  obtain bucket rest where parts: "str_split (CHR ''/'') (str_replace ''gs://'' [] ?path) = bucket # rest"
    using str_split_not_Nil [of "CHR ''/''" "str_replace ''gs://'' [] ?path"]
    by (cases "str_split (CHR ''/'') (str_replace ''gs://'' [] ?path)") auto
  have "extract_params env bucket_name job_name fn_name =
       (case make_blob env bucket (str_join ''/'' rest) of
          Inl e \<Rightarrow> ([], Inl e)
        | Inr blob \<Rightarrow>
            ([BlobDownload bucket (str_join ''/'' rest)],
             case (case download_as_bytes env bucket (str_join ''/'' rest) of
                     Inl e \<Rightarrow> Inl e
                   | Inr json_data \<Rightarrow>
                       (case bytes_decode env json_data of
                          Inl e \<Rightarrow> Inl e
                        | Inr decoded \<Rightarrow> json_loads env decoded)) of
               Inl e \<Rightarrow>
                 if isinstance e [''google.api_core.exceptions.NotFound'',
                                  ''json.decoder.JSONDecodeError'',
                                  ''builtins.UnicodeDecodeError'']
                 then Inr JNull else Inl e
             | Inr params \<Rightarrow> Inr params))"
    unfolding extract_params_def Let_def parts list.case
    by (simp add: io_except_def io_bind_def io_call_def io_lift_def io_return_def
        split: sum.splits)
  then show ?thesis by blast
qed

lemma extract_params_path_roundtrip:
  assumes "CHR ''/'' \<notin> set bucket"
      and "\<not> sublist ''gs://'' (bucket @ ''/'' @ fn @ ''/'' @ job @ ''.json'')"
  shows "str_split (CHR ''/'') (str_replace ''gs://'' [] (''gs://'' @ bucket @ ''/'' @ fn @ ''/'' @ job @ ''.json''))
           = bucket # str_split (CHR ''/'') (fn @ ''/'' @ job @ ''.json'')"
    and "str_join ''/'' (str_split (CHR ''/'') (fn @ ''/'' @ job @ ''.json'')) = fn @ ''/'' @ job @ ''.json''"
proof -
  have "str_replace ''gs://'' [] (''gs://'' @ bucket @ ''/'' @ fn @ ''/'' @ job @ ''.json'')
          = str_replace ''gs://'' [] (bucket @ ''/'' @ fn @ ''/'' @ job @ ''.json'')"
    using str_replace_prefix [of "''gs://''" "[]" "bucket @ ''/'' @ fn @ ''/'' @ job @ ''.json''"]
    by simp
  also have "\<dots> = bucket @ ''/'' @ fn @ ''/'' @ job @ ''.json''"
    by (rule str_replace_absent [OF _ assms(2)]) simp
  finally have stripped: "str_replace ''gs://'' [] (''gs://'' @ bucket @ ''/'' @ fn @ ''/'' @ job @ ''.json'')
          = bucket @ ''/'' @ fn @ ''/'' @ job @ ''.json''" .
  show "str_split (CHR ''/'') (str_replace ''gs://'' [] (''gs://'' @ bucket @ ''/'' @ fn @ ''/'' @ job @ ''.json''))
           = bucket # str_split (CHR ''/'') (fn @ ''/'' @ job @ ''.json'')"
    unfolding stripped
    using str_split_first [OF assms(1), of "fn @ ''/'' @ job @ ''.json''"] by simp
  show "str_join ''/'' (str_split (CHR ''/'') (fn @ ''/'' @ job @ ''.json'')) = fn @ ''/'' @ job @ ''.json''"
    by (rule str_join_split)
qed

lemma extract_params_reads_named_object:
  assumes "CHR ''/'' \<notin> set bucket"
      and "\<not> sublist ''gs://'' (bucket @ ''/'' @ fn @ ''/'' @ job @ ''.json'')"
      and "make_blob env bucket (fn @ ''/'' @ job @ ''.json'') = Inr blob"
  shows "fst (extract_params env (JStr bucket) (JStr job) (JStr fn))
           = [BlobDownload bucket (fn @ ''/'' @ job @ ''.json'')]"
proof -
  have strs: "py_str env (JStr bucket) = bucket" "py_str env (JStr job) = job" "py_str env (JStr fn) = fn"
    by (simp_all add: py_str_def)
  have handle: "make_blob env bucket (str_join ''/'' (str_split (CHR ''/'') (fn @ ''/'' @ job @ ''.json''))) = Inr blob"
    unfolding extract_params_path_roundtrip(2) [OF assms(1,2)] by (rule assms(3))
  show ?thesis
    unfolding extract_params_def Let_def strs extract_params_path_roundtrip(1) [OF assms(1,2)] list.case
      handle io_bind_lift_Inr
    unfolding extract_params_path_roundtrip(2) [OF assms(1,2)]
    by (simp add: io_except_def io_bind_def io_call_def io_lift_def io_return_def
        split: sum.splits)
qed

lemma swallowed_load_failure_is_None:
  assumes "download_as_bytes env bucket object_name = Inl e"
      and "isinstance e [''google.api_core.exceptions.NotFound'',
                         ''json.decoder.JSONDecodeError'', ''builtins.UnicodeDecodeError'']"
      and "BlobDownload bucket object_name \<in> set (fst (extract_params env bucket_name job_name fn_name))"
  shows "snd (extract_params env bucket_name job_name fn_name) = Inr JNull"
proof -
  from extract_params_reads_one_object [of env bucket_name job_name fn_name]
  obtain b k where shape: "extract_params env bucket_name job_name fn_name =
       (case make_blob env b k of
          Inl e \<Rightarrow> ([], Inl e)
        | Inr blob \<Rightarrow>
            ([BlobDownload b k],
             case (case download_as_bytes env b k of
                     Inl e \<Rightarrow> Inl e
                   | Inr json_data \<Rightarrow>
                       (case bytes_decode env json_data of
                          Inl e \<Rightarrow> Inl e
                        | Inr decoded \<Rightarrow> json_loads env decoded)) of
               Inl e \<Rightarrow>
                 if isinstance e [''google.api_core.exceptions.NotFound'',
                                  ''json.decoder.JSONDecodeError'',
                                  ''builtins.UnicodeDecodeError'']
                 then Inr JNull else Inl e
             | Inr params \<Rightarrow> Inr params))"
    by blast
  show ?thesis
  proof (cases "make_blob env b k")
    case (Inl x)
    with assms(3) show ?thesis by (simp add: shape)
  next
    case (Inr blob)
    with assms(3) have "b = bucket" "k = object_name" by (simp_all add: shape)
    with Inr assms(1,2) show ?thesis by (simp add: shape)
  qed
qed

lemma absent_parameters_abort_both_paths:
  "execute_job_or_get_status env job_id wn jn qv wp JNull = ([], Inl (attribute_error JNull ''get''))"
  by (simp add: execute_job_or_get_status_def create_batch_job_not_dict get_job_status_not_dict)
lemma resolve_properties_returns:
  assumes "\<forall>s. raw = JStr s \<longrightarrow> (\<exists>v. json_loads env s = Inr v)"
  shows "\<exists>props. resolve_properties env raw = Inr props"
  using assms by (cases raw) (auto simp: resolve_properties_def)

lemma creation_trace:
  assumes "resolve_properties env (dict_get kvs ''spark_app_properties'') = Inr props"
      and "refresh_token env = Inr token"
  shows "fst (create_batch_job env wn jn qv wp (JObj kvs)) =
           [TokenRefresh,
            HttpPost (create_url env kvs) (batch_payload env kvs props) (auth_headers env token)]"
  using assms by (simp add: create_batch_job_dict)

lemma creation_stops_at_bad_properties:
  assumes "resolve_properties env (dict_get kvs ''spark_app_properties'') = Inl e"
  shows "create_batch_job env wn jn qv wp (JObj kvs) = ([], Inl e)"
  using assms by (simp add: create_batch_job_dict)

section \<open>The claims of the specification\<close>

subsection \<open>Claim C1\<close>

text \<open>
  Claim C1, at a creation request (no \<open>job_id\<close>) that names the bucket \<open>b\<close> when the blob
  \<open>fn/j.json\<close> does not exist: \<open>extract_params\<close> swallows NotFound and returns \<open>None\<close>,
  the first \<open>extracted_params.get\<close> of \<open>create_batch_job\<close> raises AttributeError, no
  token is refreshed and no POST is issued, and \<open>main\<close> returns the error dict. The
  lemmas \<open>swallowed_load_failure_is_None\<close> and \<open>absent_parameters_abort_both_paths\<close> show
  the same for every world: a swallowed failure makes the parameters \<open>None\<close>, and with
  \<open>None\<close> neither \<open>create_batch_job\<close> nor \<open>get_job_status\<close> gets past its first line.
\<close>

theorem missing_blob_aborts_creation:
  "main (demo_env\<lparr>download_as_bytes := \<lambda>b k. Inl not_found\<rparr>) \<lparr>is_json = True, body = creation_body\<rparr>
  = ([BlobDownload ''b'' ''fn/j.json''],
     Inr (JObj [(''error'', JStr ''AttributeError''),
                (''message'', JStr (''AttributeError('' @ [dq, sq] @ ''NoneType'' @ [sq]
                    @ '' object has no attribute '' @ [sq] @ ''get'' @ [sq, dq] @ '')''))]))"
  by code_simp

subsection \<open>Claim C2\<close>

text \<open>
  Claim C2, amended. When the POST of a creation or the GET of a status lookup is answered
  with a status other than 200, the try block raises a plain \<open>Exception\<close> (the module
  defines no error class of its own) whose message is
  \<open>Dataproc API CREATE request failed. Status code:<code>\<close>, or the same with \<open>GET\<close>; the
  message holds the status code and not the response body, which is only printed; and
  \<open>main\<close> returns the error dict with \<open>error\<close> equal to \<open>Exception\<close> and \<open>message\<close> equal to
  the \<open>repr\<close> of that exception.
\<close>

theorem rest_failure_raises_plain_exception:
  assumes "(HttpPost u p h \<in> set (fst (main env rq)) \<and> requests_post env u p h = Inr resp
              \<and> verb = ''CREATE'')
         \<or> (HttpGet u h \<in> set (fst (main env rq)) \<and> requests_get env u h = Inr resp
              \<and> verb = ''GET'')"
      and "status_code resp \<noteq> 200"
  shows "(\<exists>request_json. get_json_silent env rq = Inr request_json
            \<and> snd (main_try env request_json) =
                Inl (py_exception (''Dataproc API '' @ verb @ '' request failed. Status code:''
                                     @ str_int (status_code resp))))
       \<and> snd (main env rq) =
           Inr (JObj [(''error'', JStr ''Exception''),
                      (''message'', JStr (''Exception('' @ [sq] @ ''Dataproc API '' @ verb
                         @ '' request failed. Status code:'' @ str_int (status_code resp)
                         @ [sq] @ '')''))])
       \<and> sublist (str_int (status_code resp))
            (''Exception('' @ [sq] @ ''Dataproc API '' @ verb
               @ '' request failed. Status code:'' @ str_int (status_code resp) @ [sq] @ '')'')"
proof -
  let ?msg = "''Dataproc API '' @ verb @ '' request failed. Status code:'' @ str_int (status_code resp)"
  have verb: "verb = ''CREATE'' \<or> verb = ''GET''"
    using assms(1) by blast
  have core: "\<exists>request_json. get_json_silent env rq = Inr request_json
            \<and> snd (main_try env request_json) = Inl (py_exception ?msg)
            \<and> snd (main env rq) = Inr (error_response (py_exception ?msg))"
    using assms(1)
  proof (elim disjE conjE)
    assume posted: "HttpPost u p h \<in> set (fst (main env rq))"
      and answer: "requests_post env u p h = Inr resp" and v: "verb = ''CREATE''"
    from main_call_decoded [OF posted]
    obtain j where decoded: "get_json_silent env rq = Inr j"
      and inner: "HttpPost u p h \<in> set (fst (main_try env j))"
      and outer: "snd (main env rq) =
             (case snd (main_try env j) of Inl e \<Rightarrow> Inr (error_response e) | Inr v \<Rightarrow> Inr v)"
      by blast
    from main_try_remote_call [OF inner]
    obtain jid wn jn qv wp ep where
      call: "HttpPost u p h \<in> set (fst (execute_job_or_get_status env jid wn jn qv wp ep))"
      and result: "snd (main_try env j) =
             (case snd (execute_job_or_get_status env jid wn jn qv wp ep) of
                Inl e \<Rightarrow> Inl e
              | Inr s \<Rightarrow> (case py_startswith s ''aef-'' of Inl e \<Rightarrow> Inl e | Inr tracked \<Rightarrow> Inr s))"
      by auto
    have creation: "execute_job_or_get_status env jid wn jn qv wp ep = create_batch_job env wn jn qv wp ep"
      using call by (rule execute_posted)
    from call have "HttpPost u p h \<in> set (fst (create_batch_job env wn jn qv wp ep))"
      unfolding creation .
    from create_batch_job_posted [OF this]
    have "snd (create_batch_job env wn jn qv wp ep) =
            (case requests_post env u p h of Inl e \<Rightarrow> Inl e | Inr resp \<Rightarrow> create_outcome env resp)"
      by auto
    then have "snd (create_batch_job env wn jn qv wp ep) = Inl (py_exception ?msg)"
      using assms(2) by (simp add: answer create_outcome_def v)
    then have raised: "snd (main_try env j) = Inl (py_exception ?msg)"
      unfolding result creation by simp
    from outer have "snd (main env rq) = Inr (error_response (py_exception ?msg))"
      unfolding raised by simp
    with decoded raised show ?thesis by blast
  next
    assume got: "HttpGet u h \<in> set (fst (main env rq))"
      and answer: "requests_get env u h = Inr resp" and v: "verb = ''GET''"
    from main_call_decoded [OF got]
    obtain j where decoded: "get_json_silent env rq = Inr j"
      and inner: "HttpGet u h \<in> set (fst (main_try env j))"
      and outer: "snd (main env rq) =
             (case snd (main_try env j) of Inl e \<Rightarrow> Inr (error_response e) | Inr v \<Rightarrow> Inr v)"
      by blast
    from main_try_remote_call [OF inner]
    obtain jid wn jn qv wp ep where
      call: "HttpGet u h \<in> set (fst (execute_job_or_get_status env jid wn jn qv wp ep))"
      and result: "snd (main_try env j) =
             (case snd (execute_job_or_get_status env jid wn jn qv wp ep) of
                Inl e \<Rightarrow> Inl e
              | Inr s \<Rightarrow> (case py_startswith s ''aef-'' of Inl e \<Rightarrow> Inl e | Inr tracked \<Rightarrow> Inr s))"
      by auto
    have lookup: "execute_job_or_get_status env jid wn jn qv wp ep = get_job_status env jid ep"
      using call by (rule execute_got)
    from call have "HttpGet u h \<in> set (fst (get_job_status env jid ep))"
      unfolding lookup .
    from get_job_status_got [OF this]
    have "snd (get_job_status env jid ep) =
            (case requests_get env u h of Inl e \<Rightarrow> Inl e | Inr resp \<Rightarrow> status_outcome resp)"
      by auto
    then have "snd (get_job_status env jid ep) = Inl (py_exception ?msg)"
      using assms(2) by (simp add: answer status_outcome_def v)
    then have raised: "snd (main_try env j) = Inl (py_exception ?msg)"
      unfolding result lookup by simp
    from outer have "snd (main env rq) = Inr (error_response (py_exception ?msg))"
      unfolding raised by simp
    with decoded raised show ?thesis by blast
  qed
  have contained: "sublist (str_int (status_code resp))
            (''Exception('' @ [sq] @ ''Dataproc API '' @ verb
               @ '' request failed. Status code:'' @ str_int (status_code resp) @ [sq] @ '')'')"
    using sublist_in_middle [of "str_int (status_code resp)"
        "''Exception('' @ [sq] @ ''Dataproc API '' @ verb @ '' request failed. Status code:''"
        "[sq] @ '')''"]
    by simp
  from core contained show ?thesis
    unfolding failure_repr [OF verb] by blast
qed

theorem rest_failure_witness:
  "snd (main (demo_env\<lparr>requests_post := \<lambda>u p h. Inr (demo_response 404 ''not found'' JNull)\<rparr>)
          \<lparr>is_json = True, body = creation_body\<rparr>) =
     Inr (JObj [(''error'', JStr ''Exception''),
                (''message'', JStr (''Exception('' @ [sq]
                   @ ''Dataproc API CREATE request failed. Status code:404'' @ [sq] @ '')''))])
   \<and> snd (main (demo_env\<lparr>requests_get := \<lambda>u h. Inr (demo_response 503 ''unavailable'' JNull)\<rparr>)
          \<lparr>is_json = True, body = status_body\<rparr>) =
     Inr (JObj [(''error'', JStr ''Exception''),
                (''message'', JStr (''Exception('' @ [sq]
                   @ ''Dataproc API GET request failed. Status code:503'' @ [sq] @ '')''))])"
proof -
  let ?env1 = "demo_env\<lparr>requests_post := \<lambda>u p h. Inr (demo_response 404 ''not found'' JNull)\<rparr>"
  let ?env2 = "demo_env\<lparr>requests_get := \<lambda>u h. Inr (demo_response 503 ''unavailable'' JNull)\<rparr>"
  let ?u1 = "''https://dataproc.googleapis.com/v1/projects/p/locations/r/batches?batchId=aef-100''"
  let ?u2 = "''https://dataproc.googleapis.com/v1/projects/p/locations/r/batches/aef-100''"
  let ?h = "[(''Authorization'', ''Bearer tok'')]"
  let ?p = "batch_payload demo_env demo_kvs (JObj [(''k'', JStr ''v'')])"
  have posted: "HttpPost ?u1 ?p ?h \<in> set (fst (main ?env1 \<lparr>is_json = True, body = creation_body\<rparr>))"
    by code_simp
  have got: "HttpGet ?u2 ?h \<in> set (fst (main ?env2 \<lparr>is_json = True, body = status_body\<rparr>))"
    by code_simp
  have answer1: "requests_post ?env1 ?u1 ?p ?h = Inr (demo_response 404 ''not found'' JNull)"
    by simp
  have answer2: "requests_get ?env2 ?u2 ?h = Inr (demo_response 503 ''unavailable'' JNull)"
    by simp
  have codes: "status_code (demo_response 404 ''not found'' JNull) = 404"
    "status_code (demo_response 503 ''unavailable'' JNull) = 503"
    by (simp_all add: demo_response_def)
  have failed: "status_code (demo_response 404 ''not found'' JNull) \<noteq> 200"
    "status_code (demo_response 503 ''unavailable'' JNull) \<noteq> 200"
    by (simp_all add: demo_response_def)
  have rendered: "str_int 404 = ''404''" "str_int 503 = ''503''"
    by code_simp+
  have create: "(HttpPost ?u1 ?p ?h \<in> set (fst (main ?env1 \<lparr>is_json = True, body = creation_body\<rparr>))
        \<and> requests_post ?env1 ?u1 ?p ?h = Inr (demo_response 404 ''not found'' JNull)
        \<and> ''CREATE'' = ''CREATE'')
      \<or> (HttpGet ?u1 ?h \<in> set (fst (main ?env1 \<lparr>is_json = True, body = creation_body\<rparr>))
        \<and> requests_get ?env1 ?u1 ?h = Inr (demo_response 404 ''not found'' JNull)
        \<and> ''CREATE'' = ''GET'')"
    using posted answer1 by blast
  have lookup: "(HttpPost ?u2 ?p ?h \<in> set (fst (main ?env2 \<lparr>is_json = True, body = status_body\<rparr>))
        \<and> requests_post ?env2 ?u2 ?p ?h = Inr (demo_response 503 ''unavailable'' JNull)
        \<and> ''GET'' = ''CREATE'')
      \<or> (HttpGet ?u2 ?h \<in> set (fst (main ?env2 \<lparr>is_json = True, body = status_body\<rparr>))
        \<and> requests_get ?env2 ?u2 ?h = Inr (demo_response 503 ''unavailable'' JNull)
        \<and> ''GET'' = ''GET'')"
    using got answer2 by blast
  from rest_failure_raises_plain_exception [OF create failed(1)]
  have first: "snd (main ?env1 \<lparr>is_json = True, body = creation_body\<rparr>) =
     Inr (JObj [(''error'', JStr ''Exception''),
                (''message'', JStr (''Exception('' @ [sq]
                   @ ''Dataproc API CREATE request failed. Status code:404'' @ [sq] @ '')''))])"
    unfolding codes rendered by simp
  from rest_failure_raises_plain_exception [OF lookup failed(2)]
  have second: "snd (main ?env2 \<lparr>is_json = True, body = status_body\<rparr>) =
     Inr (JObj [(''error'', JStr ''Exception''),
                (''message'', JStr (''Exception('' @ [sq]
                   @ ''Dataproc API GET request failed. Status code:503'' @ [sq] @ '')''))])"
    unfolding codes rendered by simp
  from first second show ?thesis by (rule conjI)
qed

text \<open>
  Claim C2 as stated fails: a creation whose POST is answered with status 404 and the
  body \<open>not found\<close> ends in the error dict whose \<open>error\<close> is \<open>Exception\<close>, not
  \<open>JobSubmissionError\<close>, and whose \<open>message\<close> does not contain the body.
\<close>

theorem rest_failure_is_not_a_dedicated_error:
  "main (demo_env\<lparr>requests_post := \<lambda>u p h. Inr (demo_response 404 ''not found'' JNull)\<rparr>)
        \<lparr>is_json = True, body = creation_body\<rparr> =
     ([BlobDownload ''b'' ''fn/j.json'', TokenRefresh,
       HttpPost ''https://dataproc.googleapis.com/v1/projects/p/locations/r/batches?batchId=aef-100''
         (batch_payload demo_env demo_kvs (JObj [(''k'', JStr ''v'')]))
         [(''Authorization'', ''Bearer tok'')]],
      Inr (JObj [(''error'', JStr ''Exception''),
                 (''message'', JStr (''Exception('' @ [sq]
                    @ ''Dataproc API CREATE request failed. Status code:404'' @ [sq] @ '')''))]))
   \<and> ''Exception'' \<noteq> ''JobSubmissionError''
   \<and> \<not> sublist ''not found''
         (''Exception('' @ [sq] @ ''Dataproc API CREATE request failed. Status code:404'' @ [sq] @ '')'')"
  by code_simp

subsection \<open>Claim C3\<close>

text \<open>
  Claim C3, amended. When the two lines before the try statement return (the decoding of
  the body gives \<open>request_json\<close> and the event is printed), \<open>main\<close> returns a value and
  raises nothing: either the try block returned a string, which is the result, or it
  raised an exception \<open>e\<close>, whatever \<open>e\<close> is, and the result is the dict whose \<open>error\<close> is
  the class name of \<open>e\<close> and whose \<open>message\<close> is \<open>repr e\<close>.
\<close>

theorem main_returns_string_or_error_object:
  assumes "get_json_silent env rq = Inr request_json"
      and "print_event env (''event:'' @ py_str env request_json) = Inr printed"
  shows "(\<exists>s. snd (main_try env request_json) = Inr (JStr s)
            \<and> snd (main env rq) = Inr (JStr s))
       \<or> (\<exists>e. snd (main_try env request_json) = Inl e
            \<and> snd (main env rq) =
                Inr (JObj [(''error'', JStr (class_name e)), (''message'', JStr (repr_exn e))]))"
proof (cases "snd (main_try env request_json)")
  case (Inl e)
  then show ?thesis
    by (simp add: main_of_main_try [OF assms] error_response_def)
next
  case (Inr v)
  then obtain s where "v = JStr s" using main_try_returns_str by blast
  with Inr show ?thesis
    by (simp add: main_of_main_try [OF assms])
qed

theorem main_returns_witness:
  "snd (main demo_env \<lparr>is_json = True, body = creation_body\<rparr>) = Inr (JStr ''aef-100'')
   \<and> snd (main (demo_env\<lparr>refresh_token := Inl recursion_error\<rparr>)
          \<lparr>is_json = True, body = creation_body\<rparr>) =
       Inr (JObj [(''error'', JStr ''RecursionError''),
                  (''message'', JStr (repr_exn recursion_error))])"
proof -
  let ?rq = "\<lparr>is_json = True, body = creation_body\<rparr>"
  let ?env = "demo_env\<lparr>refresh_token := Inl recursion_error\<rparr>"
  have decoded: "get_json_silent demo_env ?rq = Inr creation_request"
    "get_json_silent ?env ?rq = Inr creation_request"
    by (simp_all add: get_json_silent_def demo_env_def)
  have printed: "print_event demo_env (''event:'' @ py_str demo_env creation_request) = Inr ()"
    "print_event ?env (''event:'' @ py_str ?env creation_request) = Inr ()"
    by (simp_all add: demo_env_def)
  have inner: "snd (main_try demo_env creation_request) = Inr (JStr ''aef-100'')"
    by code_simp
  have inner': "snd (main_try ?env creation_request) = Inl recursion_error"
    by code_simp
  have cls: "class_name recursion_error = ''RecursionError''"
    by (simp add: recursion_error_def)
  from main_returns_string_or_error_object [OF decoded(1) printed(1)] inner
  have first: "snd (main demo_env ?rq) = Inr (JStr ''aef-100'')"
    by auto
  from main_returns_string_or_error_object [OF decoded(2) printed(2)] inner'
  have second: "snd (main ?env ?rq) =
       Inr (JObj [(''error'', JStr ''RecursionError''),
                  (''message'', JStr (repr_exn recursion_error))])"
    by (auto simp: cls)
  from first second show ?thesis by (rule conjI)
qed

text \<open>
  Claim C3 as stated fails: the request below has a JSON content type and a body of a
  thousand opening brackets. The parser raises RecursionError, which is no ValueError, so
  \<open>get_json(silent=True)\<close> on line 45, before the try statement, lets it through, and
  \<open>main\<close> raises it: the result is neither a string nor the error dict.
\<close>

theorem deep_body_escapes_the_handler:
  "main demo_env \<lparr>is_json = True, body = replicate 1000 CHR ''[''\<rparr> = ([], Inl recursion_error)"
  by code_simp

subsection \<open>Claim C4\<close>

text \<open>
  Claim C4, amended. When the POST of \<open>create_batch_job\<close> is answered with status 200, the
  function returns \<open>aef-\<close> followed by the decimal digits of the timestamp rounded to the
  nearest whole second (\<open>int(round(...))\<close>, a tie going to the even second); for a clock
  at or after the epoch the suffix is a non-empty string of digits; and any two such calls
  whose timestamps round to the same second return the same batch id.
\<close>

theorem batch_id_is_rounded_timestamp:
  assumes "HttpPost u p h \<in> set (fst (create_batch_job env wn jn qv wp ep))"
      and "requests_post env u p h = Inr resp"
      and "status_code resp = 200"
  shows "snd (create_batch_job env wn jn qv wp ep)
           = Inr (JStr (''aef-'' @ str_int (py_round (now_timestamp env))))
       \<and> (0 \<le> now_timestamp env \<longrightarrow>
            str_int (py_round (now_timestamp env)) \<noteq> []
            \<and> list_all is_digit (str_int (py_round (now_timestamp env))))
       \<and> (\<forall>env' wn' jn' qv' wp' ep' u' p' h' resp'.
            HttpPost u' p' h' \<in> set (fst (create_batch_job env' wn' jn' qv' wp' ep'))
            \<and> requests_post env' u' p' h' = Inr resp' \<and> status_code resp' = 200
            \<and> py_round (now_timestamp env') = py_round (now_timestamp env)
            \<longrightarrow> snd (create_batch_job env' wn' jn' qv' wp' ep')
                  = snd (create_batch_job env wn jn qv wp ep))"
proof -
  have ok: "snd (create_batch_job e a b c d x) = Inr (JStr (''aef-'' @ str_int (py_round (now_timestamp e))))"
    if "HttpPost u1 p1 h1 \<in> set (fst (create_batch_job e a b c d x))"
      and "requests_post e u1 p1 h1 = Inr r" and "status_code r = 200"
    for e a b c d x u1 p1 h1 r
  proof -
    from create_batch_job_posted [OF that(1)]
    have "snd (create_batch_job e a b c d x) =
            (case requests_post e u1 p1 h1 of Inl e \<Rightarrow> Inl e | Inr resp \<Rightarrow> create_outcome e resp)"
      by auto
    then show ?thesis
      by (simp add: that(2,3) create_outcome_def batch_id_def)
  qed
  have first: "snd (create_batch_job env wn jn qv wp ep)
           = Inr (JStr (''aef-'' @ str_int (py_round (now_timestamp env))))"
    using assms by (rule ok)
  have second: "0 \<le> now_timestamp env \<longrightarrow>
            str_int (py_round (now_timestamp env)) \<noteq> []
            \<and> list_all is_digit (str_int (py_round (now_timestamp env)))"
    using str_int_nonneg_digits [OF py_round_nonneg] by blast
  have third: "snd (create_batch_job env' wn' jn' qv' wp' ep')
                  = snd (create_batch_job env wn jn qv wp ep)"
    if "HttpPost u' p' h' \<in> set (fst (create_batch_job env' wn' jn' qv' wp' ep'))"
      and "requests_post env' u' p' h' = Inr resp'" and "status_code resp' = 200"
      and "py_round (now_timestamp env') = py_round (now_timestamp env)"
    for env' wn' jn' qv' wp' ep' u' p' h' resp'
    using ok [OF that(1,2,3)] first that(4) by simp
  from first second third show ?thesis by blast
qed

theorem batch_id_witness:
  "snd (create_batch_job demo_env JNull JNull JNull JNull (JObj demo_kvs)) = Inr (JStr ''aef-100'')
   \<and> list_all is_digit ''100''
   \<and> snd (create_batch_job (demo_env\<lparr>now_timestamp := 100\<rparr>) JNull JNull JNull JNull (JObj demo_kvs))
       = snd (create_batch_job demo_env JNull JNull JNull JNull (JObj demo_kvs))"
proof -
  have a: "dict_get demo_kvs ''spark_app_properties'' = JStr demo_properties_text"
    by (simp add: demo_kvs_def dict_get_def)
  have posted: "HttpPost (create_url demo_env demo_kvs)
        (batch_payload demo_env demo_kvs (JObj [(''k'', JStr ''v'')])) (auth_headers demo_env (JStr ''tok''))
      \<in> set (fst (create_batch_job demo_env JNull JNull JNull JNull (JObj demo_kvs)))"
    by (rule demo_creation_posts [OF a])
  have posted': "HttpPost (create_url (demo_env\<lparr>now_timestamp := 100\<rparr>) demo_kvs)
        (batch_payload (demo_env\<lparr>now_timestamp := 100\<rparr>) demo_kvs (JObj [(''k'', JStr ''v'')]))
        (auth_headers (demo_env\<lparr>now_timestamp := 100\<rparr>) (JStr ''tok''))
      \<in> set (fst (create_batch_job (demo_env\<lparr>now_timestamp := 100\<rparr>) JNull JNull JNull JNull (JObj demo_kvs)))"
    by (rule creation_posts [OF demo_resolve [OF a] demo_token])
  have answered: "requests_post demo_env u p h = Inr (demo_response 200 ''{}'' (JObj []))" for u p h
    by (simp add: demo_env_def)
  have answered': "requests_post (demo_env\<lparr>now_timestamp := 100\<rparr>) u p h
                     = Inr (demo_response 200 ''{}'' (JObj []))" for u p h
    by (simp add: demo_env_def)
  have ok: "status_code (demo_response 200 ''{}'' (JObj [])) = 200"
    by (simp add: demo_response_def)
  have clock: "now_timestamp demo_env = 401 / 4" "(0::rat) \<le> 401 / 4"
    by (simp_all add: demo_env_def)
  have rounded: "py_round (401 / 4) = 100" "py_round 100 = 100"
    by code_simp+
  have rendered: "str_int 100 = ''100''"
    by code_simp
  have same: "py_round (now_timestamp (demo_env\<lparr>now_timestamp := 100\<rparr>)) = py_round (now_timestamp demo_env)"
    by (simp add: clock rounded)
  note inst = batch_id_is_rounded_timestamp [OF posted answered ok]
  from inst have "snd (create_batch_job demo_env JNull JNull JNull JNull (JObj demo_kvs)) = Inr (JStr ''aef-100'')"
    by (simp add: clock rounded rendered)
  moreover from inst clock have "list_all is_digit ''100''"
    by (simp add: rounded rendered)
  moreover from inst posted' answered' ok same
  have "snd (create_batch_job (demo_env\<lparr>now_timestamp := 100\<rparr>) JNull JNull JNull JNull (JObj demo_kvs))
       = snd (create_batch_job demo_env JNull JNull JNull JNull (JObj demo_kvs))"
    by blast
  ultimately show ?thesis by blast
qed

text \<open>
  Claim C4 as stated fails: the two calls below are made within the same wall-clock
  second (at 100.25 s and at 100.75 s), both are answered with status 200, and they return
  the different batch ids \<open>aef-100\<close> and \<open>aef-101\<close>.
\<close>

theorem same_second_different_batch_ids:
  "\<lfloor>now_timestamp demo_env\<rfloor> = \<lfloor>now_timestamp (demo_env\<lparr>now_timestamp := 403 / 4\<rparr>)\<rfloor>
   \<and> create_batch_job demo_env JNull JNull JNull JNull (JObj demo_kvs) =
       ([TokenRefresh,
         HttpPost ''https://dataproc.googleapis.com/v1/projects/p/locations/r/batches?batchId=aef-100''
           (batch_payload demo_env demo_kvs (JObj [(''k'', JStr ''v'')]))
           [(''Authorization'', ''Bearer tok'')]],
        Inr (JStr ''aef-100''))
   \<and> create_batch_job (demo_env\<lparr>now_timestamp := 403 / 4\<rparr>) JNull JNull JNull JNull (JObj demo_kvs) =
       ([TokenRefresh,
         HttpPost ''https://dataproc.googleapis.com/v1/projects/p/locations/r/batches?batchId=aef-101''
           (batch_payload demo_env demo_kvs (JObj [(''k'', JStr ''v'')]))
           [(''Authorization'', ''Bearer tok'')]],
        Inr (JStr ''aef-101''))"
  by code_simp

subsection \<open>Claim C5\<close>

text \<open>
  Claim C5. In every payload that \<open>create_batch_job\<close> posts, \<open>environment_config\<close> has the
  entry \<open>peripherals_config\<close> exactly when the parameter \<open>spark_history_server_cluster\<close> is
  true as a truth value (for a string: non-empty; absent, \<open>None\<close> and the empty string are
  not), and then its \<open>dataproc_cluster\<close> is the string
  \<open>projects/<project_id>/regions/<region>/clusters/<cluster>\<close>. And such a payload is
  built and posted: when \<open>spark_app_properties\<close> is no string or parses, and the token is
  refreshed, \<open>create_batch_job\<close> refreshes the token and issues exactly one POST, whose
  payload is of that kind.
\<close>

theorem peripherals_config_iff_cluster:
  "(\<forall>u p h. HttpPost u p h \<in> set (fst (create_batch_job env wn jn qv wp (JObj kvs))) \<longrightarrow>
       (json_at [''environment_config'', ''peripherals_config''] p \<noteq> None)
          = py_truthy (dict_get kvs ''spark_history_server_cluster'')
     \<and> (py_truthy (dict_get kvs ''spark_history_server_cluster'') \<longrightarrow>
          json_at [''environment_config'', ''peripherals_config'', ''spark_history_server_config'',
                   ''dataproc_cluster''] p =
            Some (JStr (''projects/'' @ py_str env (dict_get kvs ''dataproc_serverless_project_id'')
                        @ ''/regions/'' @ py_str env (dict_get kvs ''dataproc_serverless_region'')
                        @ ''/clusters/'' @ py_str env (dict_get kvs ''spark_history_server_cluster'')))))
   \<and> ((\<forall>s. dict_get kvs ''spark_app_properties'' = JStr s \<longrightarrow> (\<exists>v. json_loads env s = Inr v))
        \<and> (\<exists>token. refresh_token env = Inr token)
      \<longrightarrow> (\<exists>u p h.
             fst (create_batch_job env wn jn qv wp (JObj kvs)) = [TokenRefresh, HttpPost u p h]
           \<and> (json_at [''environment_config'', ''peripherals_config''] p \<noteq> None)
                = py_truthy (dict_get kvs ''spark_history_server_cluster'')))"
proof (intro conjI allI impI)
  fix u p h
  assume posted: "HttpPost u p h \<in> set (fst (create_batch_job env wn jn qv wp (JObj kvs)))"
  from create_batch_job_posted [OF posted]
  obtain props where p: "p = batch_payload env kvs props" by auto
  show "(json_at [''environment_config'', ''peripherals_config''] p \<noteq> None)
          = py_truthy (dict_get kvs ''spark_history_server_cluster'')"
    unfolding p by (simp add: json_at_payload_peripherals del: json_at.simps)
  assume "py_truthy (dict_get kvs ''spark_history_server_cluster'')"
  then show "json_at [''environment_config'', ''peripherals_config'', ''spark_history_server_config'',
                   ''dataproc_cluster''] p =
            Some (JStr (''projects/'' @ py_str env (dict_get kvs ''dataproc_serverless_project_id'')
                        @ ''/regions/'' @ py_str env (dict_get kvs ''dataproc_serverless_region'')
                        @ ''/clusters/'' @ py_str env (dict_get kvs ''spark_history_server_cluster'')))"
    unfolding p by (simp add: json_at_payload_cluster cluster_path_def del: json_at.simps)
next
  assume ready: "(\<forall>s. dict_get kvs ''spark_app_properties'' = JStr s \<longrightarrow> (\<exists>v. json_loads env s = Inr v))
        \<and> (\<exists>token. refresh_token env = Inr token)"
  then obtain token where token: "refresh_token env = Inr token" by blast
  from ready obtain props where
    props: "resolve_properties env (dict_get kvs ''spark_app_properties'') = Inr props"
    using resolve_properties_returns [of "dict_get kvs ''spark_app_properties''" env] by blast
  have "fst (create_batch_job env wn jn qv wp (JObj kvs)) =
           [TokenRefresh,
            HttpPost (create_url env kvs) (batch_payload env kvs props) (auth_headers env token)]"
    by (rule creation_trace [OF props token])
  moreover have "(json_at [''environment_config'', ''peripherals_config'']
                    (batch_payload env kvs props) \<noteq> None)
                = py_truthy (dict_get kvs ''spark_history_server_cluster'')"
    by (simp add: json_at_payload_peripherals del: json_at.simps)
  ultimately show "\<exists>u p h.
             fst (create_batch_job env wn jn qv wp (JObj kvs)) = [TokenRefresh, HttpPost u p h]
           \<and> (json_at [''environment_config'', ''peripherals_config''] p \<noteq> None)
                = py_truthy (dict_get kvs ''spark_history_server_cluster'')"
    by blast
qed

theorem peripherals_config_witness:
  "(\<exists>u p h.
      fst (create_batch_job demo_env JNull JNull JNull JNull (JObj demo_kvs))
        = [TokenRefresh, HttpPost u p h]
    \<and> json_at [''environment_config'', ''peripherals_config'', ''spark_history_server_config'',
               ''dataproc_cluster''] p = Some (JStr ''projects/p/regions/r/clusters/hist''))
   \<and> (\<exists>u p h.
      fst (create_batch_job demo_env JNull JNull JNull JNull (JObj plain_kvs))
        = [TokenRefresh, HttpPost u p h]
    \<and> json_at [''environment_config'', ''peripherals_config''] p = None)"
proof -
  note inst = peripherals_config_iff_cluster [of demo_env JNull JNull JNull JNull demo_kvs]
  note inst' = peripherals_config_iff_cluster [of demo_env JNull JNull JNull JNull plain_kvs]
  have token: "\<exists>token. refresh_token demo_env = Inr token"
    by (simp add: demo_env_def)
  have parses: "\<forall>s. dict_get demo_kvs ''spark_app_properties'' = JStr s
                  \<longrightarrow> (\<exists>v. json_loads demo_env s = Inr v)"
    by (simp add: demo_kvs_def dict_get_def demo_env_def demo_blob_def demo_properties_text_def
        quoted_def)
  have no_string: "\<forall>s. dict_get plain_kvs ''spark_app_properties'' = JStr s
                  \<longrightarrow> (\<exists>v. json_loads demo_env s = Inr v)"
    by (simp add: plain_kvs_def dict_get_def)
  have t: "py_truthy (dict_get demo_kvs ''spark_history_server_cluster'')"
    by (simp add: demo_kvs_def dict_get_def)
  have f: "\<not> py_truthy (dict_get plain_kvs ''spark_history_server_cluster'')"
    by (simp add: plain_kvs_def dict_get_def)
  have strs: "py_str demo_env (dict_get demo_kvs ''dataproc_serverless_project_id'') = ''p''"
     "py_str demo_env (dict_get demo_kvs ''dataproc_serverless_region'') = ''r''"
     "py_str demo_env (dict_get demo_kvs ''spark_history_server_cluster'') = ''hist''"
    by (simp_all add: demo_kvs_def dict_get_def py_str_def)
  from inst parses token obtain u p h where
    trace: "fst (create_batch_job demo_env JNull JNull JNull JNull (JObj demo_kvs))
              = [TokenRefresh, HttpPost u p h]"
    by blast
  then have "HttpPost u p h \<in> set (fst (create_batch_job demo_env JNull JNull JNull JNull (JObj demo_kvs)))"
    by simp
  with inst t have "json_at [''environment_config'', ''peripherals_config'', ''spark_history_server_config'',
               ''dataproc_cluster''] p =
            Some (JStr (''projects/'' @ py_str demo_env (dict_get demo_kvs ''dataproc_serverless_project_id'')
                        @ ''/regions/'' @ py_str demo_env (dict_get demo_kvs ''dataproc_serverless_region'')
                        @ ''/clusters/'' @ py_str demo_env (dict_get demo_kvs ''spark_history_server_cluster'')))"
    by blast
  then have "json_at [''environment_config'', ''peripherals_config'', ''spark_history_server_config'',
               ''dataproc_cluster''] p = Some (JStr ''projects/p/regions/r/clusters/hist'')"
    unfolding strs by simp
  with trace have first: "\<exists>u p h.
      fst (create_batch_job demo_env JNull JNull JNull JNull (JObj demo_kvs))
        = [TokenRefresh, HttpPost u p h]
    \<and> json_at [''environment_config'', ''peripherals_config'', ''spark_history_server_config'',
               ''dataproc_cluster''] p = Some (JStr ''projects/p/regions/r/clusters/hist'')"
    by blast
  from inst' no_string token obtain u' p' h' where
    trace': "fst (create_batch_job demo_env JNull JNull JNull JNull (JObj plain_kvs))
              = [TokenRefresh, HttpPost u' p' h']"
    and entry: "(json_at [''environment_config'', ''peripherals_config''] p' \<noteq> None)
                = py_truthy (dict_get plain_kvs ''spark_history_server_cluster'')"
    by blast
  from entry f have "json_at [''environment_config'', ''peripherals_config''] p' = None"
    by simp
  with trace' have second: "\<exists>u p h.
      fst (create_batch_job demo_env JNull JNull JNull JNull (JObj plain_kvs))
        = [TokenRefresh, HttpPost u p h]
    \<and> json_at [''environment_config'', ''peripherals_config''] p = None"
    by blast
  from first second show ?thesis by (rule conjI)
qed

subsection \<open>Claim C6\<close>

text \<open>
  Claim C6. When the parameter \<open>spark_app_properties\<close> is a string \<open>s\<close>: every payload
  that is posted holds, in the field \<open>properties\<close> of \<open>runtime_config\<close>, the value that
  \<open>json.loads\<close> gave for \<open>s\<close>, not \<open>s\<close> itself; when \<open>s\<close> parses and the token is
  refreshed, such a payload is built and posted; and when \<open>s\<close> does not parse,
  \<open>create_batch_job\<close> raises what \<open>json.loads\<close> raised and posts nothing.
\<close>

theorem string_properties_are_parsed:
  assumes "dict_get kvs ''spark_app_properties'' = JStr s"
  shows "(\<forall>u p h. HttpPost u p h \<in> set (fst (create_batch_job env wn jn qv wp (JObj kvs))) \<longrightarrow>
            (\<exists>v. json_loads env s = Inr v
                \<and> json_at [''runtime_config'', ''properties''] p = Some v))
       \<and> (\<forall>v token. json_loads env s = Inr v \<and> refresh_token env = Inr token \<longrightarrow>
            (\<exists>u p h.
               fst (create_batch_job env wn jn qv wp (JObj kvs)) = [TokenRefresh, HttpPost u p h]
             \<and> json_at [''runtime_config'', ''properties''] p = Some v))
       \<and> (\<forall>e. json_loads env s = Inl e \<longrightarrow>
            create_batch_job env wn jn qv wp (JObj kvs) = ([], Inl e))"
proof (intro conjI allI impI)
  fix u p h
  assume posted: "HttpPost u p h \<in> set (fst (create_batch_job env wn jn qv wp (JObj kvs)))"
  from create_batch_job_posted [OF posted]
  obtain props where props: "resolve_properties env (dict_get kvs ''spark_app_properties'') = Inr props"
    and p: "p = batch_payload env kvs props" by auto
  from props have "json_loads env s = Inr props"
    by (simp add: assms resolve_properties_def)
  then show "\<exists>v. json_loads env s = Inr v \<and> json_at [''runtime_config'', ''properties''] p = Some v"
    unfolding p json_at_payload_properties by simp
next
  fix v token
  assume ready: "json_loads env s = Inr v \<and> refresh_token env = Inr token"
  then have props: "resolve_properties env (dict_get kvs ''spark_app_properties'') = Inr v"
    by (simp add: assms resolve_properties_def)
  from ready have token: "refresh_token env = Inr token" by blast
  have "fst (create_batch_job env wn jn qv wp (JObj kvs)) =
           [TokenRefresh,
            HttpPost (create_url env kvs) (batch_payload env kvs v) (auth_headers env token)]"
    by (rule creation_trace [OF props token])
  moreover have "json_at [''runtime_config'', ''properties''] (batch_payload env kvs v) = Some v"
    by (rule json_at_payload_properties)
  ultimately show "\<exists>u p h.
               fst (create_batch_job env wn jn qv wp (JObj kvs)) = [TokenRefresh, HttpPost u p h]
             \<and> json_at [''runtime_config'', ''properties''] p = Some v"
    by blast
next
  fix e
  assume "json_loads env s = Inl e"
  then have "resolve_properties env (dict_get kvs ''spark_app_properties'') = Inl e"
    by (simp add: assms resolve_properties_def)
  then show "create_batch_job env wn jn qv wp (JObj kvs) = ([], Inl e)"
    by (rule creation_stops_at_bad_properties)
qed

theorem string_properties_witness:
  "dict_get demo_kvs ''spark_app_properties'' = JStr demo_properties_text
   \<and> (\<exists>u p h.
        fst (create_batch_job demo_env JNull JNull JNull JNull (JObj demo_kvs))
          = [TokenRefresh, HttpPost u p h]
      \<and> json_at [''runtime_config'', ''properties''] p = Some (JObj [(''k'', JStr ''v'')])
      \<and> json_at [''runtime_config'', ''properties''] p \<noteq> Some (JStr demo_properties_text))"
proof -
  have a: "dict_get demo_kvs ''spark_app_properties'' = JStr demo_properties_text"
    by (simp add: demo_kvs_def dict_get_def)
  have loads: "json_loads demo_env demo_properties_text = Inr (JObj [(''k'', JStr ''v'')])"
    by (simp add: demo_env_def demo_blob_def demo_properties_text_def quoted_def)
  have token: "refresh_token demo_env = Inr (JStr ''tok'')"
    by (simp add: demo_env_def)
  from string_properties_are_parsed [OF a, of demo_env JNull JNull JNull JNull] loads token
  obtain u p h where
    "fst (create_batch_job demo_env JNull JNull JNull JNull (JObj demo_kvs))
          = [TokenRefresh, HttpPost u p h]"
    and "json_at [''runtime_config'', ''properties''] p = Some (JObj [(''k'', JStr ''v'')])"
    by blast
  then have "\<exists>u p h.
        fst (create_batch_job demo_env JNull JNull JNull JNull (JObj demo_kvs))
          = [TokenRefresh, HttpPost u p h]
      \<and> json_at [''runtime_config'', ''properties''] p = Some (JObj [(''k'', JStr ''v'')])
      \<and> json_at [''runtime_config'', ''properties''] p \<noteq> Some (JStr demo_properties_text)"
    by auto
  with a show ?thesis by (rule conjI)
qed

subsection \<open>Claim C7\<close>

text \<open>
  Claim C7, amended. When \<open>job_id\<close> is present and true as a truth value (a non-empty
  string), \<open>execute_job_or_get_status\<close> is \<open>get_job_status\<close> and issues no POST; and when
  its GET is answered with status 200 and a JSON object, the value returned is the
  \<open>state\<close> field of that object as it stands (\<open>None\<close> when the object has none).
\<close>

theorem truthy_job_id_looks_up_status:
  assumes "py_truthy job_id"
  shows "execute_job_or_get_status env job_id wn jn qv wp ep = get_job_status env job_id ep
       \<and> (\<forall>u p h. HttpPost u p h \<notin> set (fst (execute_job_or_get_status env job_id wn jn qv wp ep)))
       \<and> (\<forall>u h resp fields.
             HttpGet u h \<in> set (fst (execute_job_or_get_status env job_id wn jn qv wp ep))
             \<and> requests_get env u h = Inr resp \<and> status_code resp = 200
             \<and> resp_json resp = Inr (JObj fields)
             \<longrightarrow> snd (execute_job_or_get_status env job_id wn jn qv wp ep)
                   = Inr (dict_get fields ''state''))"
proof -
  have lookup: "execute_job_or_get_status env job_id wn jn qv wp ep = get_job_status env job_id ep"
    using assms by (simp add: execute_job_or_get_status_def)
  have state: "snd (get_job_status env job_id ep) = Inr (dict_get fields ''state'')"
    if "HttpGet u h \<in> set (fst (get_job_status env job_id ep))"
      and "requests_get env u h = Inr resp" and "status_code resp = 200"
      and "resp_json resp = Inr (JObj fields)"
    for u h resp fields
  proof -
    from get_job_status_got [OF that(1)]
    have "snd (get_job_status env job_id ep) =
            (case requests_get env u h of Inl e \<Rightarrow> Inl e | Inr resp \<Rightarrow> status_outcome resp)"
      by auto
    then show ?thesis
      by (simp add: that(2,3,4) status_outcome_def)
  qed
  show ?thesis
    unfolding lookup using get_job_status_no_post state by blast
qed

theorem truthy_job_id_witness:
  "execute_job_or_get_status demo_env (JStr ''aef-100'') JNull JNull JNull JNull (JObj demo_kvs)
     = get_job_status demo_env (JStr ''aef-100'') (JObj demo_kvs)
   \<and> snd (execute_job_or_get_status demo_env (JStr ''aef-100'') JNull JNull JNull JNull (JObj demo_kvs))
     = Inr (JStr ''RUNNING'')"
proof -
  let ?u = "''https://dataproc.googleapis.com/v1/projects/p/locations/r/batches/aef-100''"
  let ?h = "[(''Authorization'', ''Bearer tok'')]"
  let ?resp = "demo_response 200 ''{}'' (JObj [(''state'', JStr ''RUNNING'')])"
  have truthy: "py_truthy (JStr ''aef-100'')"
    by simp
  have got: "HttpGet ?u ?h \<in> set (fst (execute_job_or_get_status demo_env (JStr ''aef-100'')
                 JNull JNull JNull JNull (JObj demo_kvs)))"
    by code_simp
  have answer: "requests_get demo_env ?u ?h = Inr ?resp"
    by (simp add: demo_env_def)
  have ok: "status_code ?resp = 200" "resp_json ?resp = Inr (JObj [(''state'', JStr ''RUNNING'')])"
    by (simp_all add: demo_response_def)
  have field: "dict_get [(''state'', JStr ''RUNNING'')] ''state'' = JStr ''RUNNING''"
    by (simp add: dict_get_def)
  note inst = truthy_job_id_looks_up_status [OF truthy, of demo_env JNull JNull JNull JNull "JObj demo_kvs"]
  from inst have first: "execute_job_or_get_status demo_env (JStr ''aef-100'') JNull JNull JNull JNull (JObj demo_kvs)
     = get_job_status demo_env (JStr ''aef-100'') (JObj demo_kvs)"
    by (rule conjunct1)
  from inst got answer ok
  have "snd (execute_job_or_get_status demo_env (JStr ''aef-100'') JNull JNull JNull JNull (JObj demo_kvs))
     = Inr (dict_get [(''state'', JStr ''RUNNING'')] ''state'')"
    by blast
  then have second: "snd (execute_job_or_get_status demo_env (JStr ''aef-100'') JNull JNull JNull JNull (JObj demo_kvs))
     = Inr (JStr ''RUNNING'')"
    unfolding field .
  from first second show ?thesis by (rule conjI)
qed

text \<open>
  Claim C7 as stated fails: in the request below \<open>job_id\<close> is present, with the empty
  string as its value, and the request is handled by \<open>create_batch_job\<close>: a POST is issued,
  no GET, and the result is a new batch id.
\<close>

theorem present_empty_job_id_creates:
  "json_field empty_id_request ''job_id'' = Some (JStr [])
   \<and> main_try demo_env empty_id_request =
       ([BlobDownload ''b'' ''fn/j.json'', TokenRefresh,
         HttpPost ''https://dataproc.googleapis.com/v1/projects/p/locations/r/batches?batchId=aef-100''
           (batch_payload demo_env demo_kvs (JObj [(''k'', JStr ''v'')]))
           [(''Authorization'', ''Bearer tok'')]],
        Inr (JStr ''aef-100''))"
  by code_simp

subsection \<open>Claim C8\<close>

text \<open>
  Claim C8, at the bucket \<open>b\<close>, the function name \<open>fn\<close> and the job name \<open>gs://x\<close>:
  \<open>replace\<close> removes every occurrence of the scheme, also the one inside the job name,
  so the object read is \<open>fn/x.json\<close> and not \<open>fn/gs://x.json\<close>. Where the scheme does
  not occur in the path after its start, the object read is the named one (lemma
  \<open>extract_params_reads_named_object\<close>).
\<close>

theorem scheme_inside_job_name_is_dropped:
  "fst (extract_params demo_env (JStr ''b'') (JStr ''gs://x'') (JStr ''fn'')) =
     [BlobDownload ''b'' ''fn/x.json'']
   \<and> ''fn/x.json'' \<noteq> ''fn/'' @ ''gs://x'' @ ''.json''"
  by code_simp

subsection \<open>Claim C9\<close>

text \<open>
  Claim C9. A \<open>job_id\<close> that is present and equal to the empty string is false as a
  truth value: \<open>execute_job_or_get_status\<close> runs \<open>create_batch_job\<close>, and a request whose
  \<open>job_id\<close> field is the empty string never issues the GET of the status lookup.
\<close>

theorem empty_job_id_takes_creation_path:
  "execute_job_or_get_status env (JStr []) wn jn qv wp ep = create_batch_job env wn jn qv wp ep
   \<and> (\<forall>kvs u h. map_of kvs ''job_id'' = Some (JStr []) \<longrightarrow>
         HttpGet u h \<notin> set (fst (main_try env (JObj kvs))))"
proof -
  have dispatch: "execute_job_or_get_status env (JStr []) wn jn qv wp ep = create_batch_job env wn jn qv wp ep"
    for wn jn qv wp ep
    by (simp add: execute_job_or_get_status_def)
  have "HttpGet u h \<notin> set (fst (main_try env (JObj kvs)))"
    if jid: "map_of kvs ''job_id'' = Some (JStr [])" for kvs u h
  proof -
    have get: "py_get (JObj kvs) ''job_id'' JNull = Inr (JStr [])"
      using jid by (simp add: dict_get_def)
    from main_try_shape [of env "JObj kvs"]
    consider (raised) t e where "main_try env (JObj kvs) = (t, Inl e)"
        and "\<forall>x\<in>set t. \<exists>bk k. x = BlobDownload bk k"
      | (ran) t jid wn jn qv wp ep where "\<forall>x\<in>set t. \<exists>bk k. x = BlobDownload bk k"
        and "py_get (JObj kvs) ''job_id'' JNull = Inr jid"
        and "main_try env (JObj kvs) =
           (t @ fst (execute_job_or_get_status env jid wn jn qv wp ep),
            case snd (execute_job_or_get_status env jid wn jn qv wp ep) of
              Inl e \<Rightarrow> Inl e
            | Inr s \<Rightarrow> (case py_startswith s ''aef-'' of Inl e \<Rightarrow> Inl e | Inr tracked \<Rightarrow> Inr s))"
      by blast
    then show ?thesis
    proof cases
      case raised
      then show ?thesis by auto
    next
      case ran
      from ran(2) get have "jid = JStr []" by simp
      with ran(1,3) show ?thesis
        by (auto simp: dispatch create_batch_job_no_get)
    qed
  qed
  with dispatch show ?thesis by blast
qed

theorem empty_job_id_witness:
  "fst (main_try demo_env empty_id_request) =
     [BlobDownload ''b'' ''fn/j.json'', TokenRefresh,
      HttpPost (create_url demo_env demo_kvs) (batch_payload demo_env demo_kvs (JObj [(''k'', JStr ''v'')]))
        (auth_headers demo_env (JStr ''tok''))]
   \<and> HttpGet ''https://dataproc.googleapis.com/v1/projects/p/locations/r/batches/''
        [(''Authorization'', ''Bearer tok'')] \<notin> set (fst (main_try demo_env empty_id_request))"
proof -
  have present: "map_of [(''workflow_name'', JStr ''w''), (''job_name'', JStr ''j''), (''job_id'', JStr []),
      (''workflow_properties'', JObj [(''jobs_definitions_bucket'', JStr ''b'')])] ''job_id'' = Some (JStr [])"
    by simp
  have posted: "fst (main_try demo_env empty_id_request) =
     [BlobDownload ''b'' ''fn/j.json'', TokenRefresh,
      HttpPost (create_url demo_env demo_kvs) (batch_payload demo_env demo_kvs (JObj [(''k'', JStr ''v'')]))
        (auth_headers demo_env (JStr ''tok''))]"
    by code_simp
  have "HttpGet ''https://dataproc.googleapis.com/v1/projects/p/locations/r/batches/''
        [(''Authorization'', ''Bearer tok'')] \<notin> set (fst (main_try demo_env empty_id_request))"
    unfolding empty_id_request_def
    by (rule empty_job_id_takes_creation_path
          [of demo_env JNull JNull JNull JNull JNull, THEN conjunct2, rule_format, OF present])
  with posted show ?thesis by (rule conjI)
qed

subsection \<open>Claim C10\<close>

text \<open>
  Claim C10, amended. When the request carries no JSON (its content type is not JSON) or
  the parser fails on its body with a ValueError (a JSONDecodeError is one),
  \<open>get_json(silent=True)\<close> is \<open>None\<close>; when the event line \<open>event:None\<close> is printed, the
  first \<open>request_json.get\<close> inside the try block raises AttributeError, no call leaves the
  process, and \<open>main\<close> returns the error dict whose \<open>error\<close> is \<open>AttributeError\<close>.
\<close>

theorem absent_body_gives_attribute_error:
  assumes "\<not> is_json rq
         \<or> (\<exists>e. request_loads env (body rq) = Inl e \<and> isinstance e [''builtins.ValueError''])"
      and "print_event env ''event:None'' = Inr printed"
  shows "get_json_silent env rq = Inr JNull
       \<and> main_try env JNull = ([], Inl (attribute_error JNull ''get''))
       \<and> class_name (attribute_error JNull ''get'') = ''AttributeError''
       \<and> main env rq =
           ([], Inr (JObj [(''error'', JStr ''AttributeError''),
                           (''message'', JStr (''AttributeError('' @ [dq, sq] @ ''NoneType'' @ [sq]
                              @ '' object has no attribute '' @ [sq] @ ''get'' @ [sq, dq] @ '')''))]))"
proof -
  have absent: "get_json_silent env rq = Inr JNull"
    using assms(1) by (auto simp: get_json_silent_def)
  have event: "print_event env (''event:'' @ py_str env JNull) = Inr printed"
    using assms(2) by (simp add: py_str_def)
  have raised: "main_try env JNull = ([], Inl (attribute_error JNull ''get''))"
    by (simp add: main_try_not_dict)
  have repr: "repr_exn (attribute_error JNull ''get'') =
      ''AttributeError('' @ [dq, sq] @ ''NoneType'' @ [sq]
                              @ '' object has no attribute '' @ [sq] @ ''get'' @ [sq, dq] @ '')''"
    by code_simp
  have cls: "class_name (attribute_error JNull ''get'') = ''AttributeError''"
    by (simp add: attribute_error_def)
  have returned: "main env rq =
           ([], Inr (JObj [(''error'', JStr ''AttributeError''),
                           (''message'', JStr (''AttributeError('' @ [dq, sq] @ ''NoneType'' @ [sq]
                              @ '' object has no attribute '' @ [sq] @ ''get'' @ [sq, dq] @ '')''))]))"
    unfolding main_of_main_try [OF absent event] raised
    by (simp add: error_response_def cls repr)
  from absent raised cls returned show ?thesis by blast
qed

theorem absent_body_witness:
  "main demo_env \<lparr>is_json = False, body = []\<rparr> =
     ([], Inr (JObj [(''error'', JStr ''AttributeError''),
                           (''message'', JStr (''AttributeError('' @ [dq, sq] @ ''NoneType'' @ [sq]
                              @ '' object has no attribute '' @ [sq] @ ''get'' @ [sq, dq] @ '')''))]))
   \<and> main demo_env \<lparr>is_json = True, body = ''{''\<rparr> =
     ([], Inr (JObj [(''error'', JStr ''AttributeError''),
                           (''message'', JStr (''AttributeError('' @ [dq, sq] @ ''NoneType'' @ [sq]
                              @ '' object has no attribute '' @ [sq] @ ''get'' @ [sq, dq] @ '')''))]))"
proof -
  have a: "\<not> is_json \<lparr>is_json = False, body = []\<rparr>
         \<or> (\<exists>e. request_loads demo_env (body \<lparr>is_json = False, body = []\<rparr>) = Inl e
                \<and> isinstance e [''builtins.ValueError''])"
    by simp
  have failed: "request_loads demo_env ''{'' = Inl json_decode_error"
    by (simp add: demo_env_def creation_body_def status_body_def)
  have value_error: "isinstance json_decode_error [''builtins.ValueError'']"
    by (simp add: isinstance_def json_decode_error_def)
  have b: "\<not> is_json \<lparr>is_json = True, body = ''{''\<rparr>
         \<or> (\<exists>e. request_loads demo_env (body \<lparr>is_json = True, body = ''{''\<rparr>) = Inl e
                \<and> isinstance e [''builtins.ValueError''])"
    using failed value_error by simp
  have printed: "print_event demo_env ''event:None'' = Inr ()"
    by (simp add: demo_env_def)
  show ?thesis
    using absent_body_gives_attribute_error [OF a printed]
      absent_body_gives_attribute_error [OF b printed]
    by simp
qed

text \<open>
  Claim C10 as stated fails: the body below, twelve hundred opening brackets, is not
  parseable as JSON, but the parser fails on it with RecursionError. The decoded body does
  not resolve to \<open>None\<close>: \<open>get_json(silent=True)\<close> raises, before the guarded region is
  entered, and \<open>main\<close> raises instead of returning the error dict.
\<close>

theorem unparseable_body_is_not_absent:
  "request_loads demo_env (replicate 1200 CHR ''['') = Inl recursion_error
   \<and> get_json_silent demo_env \<lparr>is_json = True, body = replicate 1200 CHR ''[''\<rparr> = Inl recursion_error
   \<and> main demo_env \<lparr>is_json = True, body = replicate 1200 CHR ''[''\<rparr> = ([], Inl recursion_error)"
  by code_simp

end
